theory Spec2Isabelle
  imports Complex_Main "HOL-Library.AList"
begin

section \<open>Python values used by the API server\<close>

text \<open>
  The server \<^verbatim>\<open>backend/api.py\<close> drives gridworld and Pacman experiments and returns
  JSON. Python integers are modelled as \<open>int\<close> and Python floats as \<open>real\<close> (exact
  arithmetic: the rounding of floating-point operations is not modelled, so a sum or
  a quotient of scores is the exact one), strings as \<open>string\<close>, a
  Python \<open>dict\<close> as an association list that is updated with \<open>AList.update\<close>
  (an existing key keeps its position, a new key is appended: the insertion order of
  a Python dictionary).
\<close>

type_synonym action = string

text \<open>
  Modelled from the spec: the gridworld state of the module \<^verbatim>\<open>gridworld\<close>, which is
  not part of the sources at hand. A state is an \<open>(x, y)\<close> coordinate pair or the
  distinguished terminal sentinel (\<^verbatim>\<open>gw.grid.terminalState\<close>).
\<close>

datatype state = Pos int int | TERMINAL_STATE

text \<open>
  A grid cell is read by the server through \<^verbatim>\<open>isinstance(cell, (int, float))\<close> and
  \<^verbatim>\<open>== '#'\<close>: it is either a number or a string.
\<close>

datatype cell = CellNum real | CellStr string

text \<open>
  Keys of a Python dictionary that the server builds: a string, a state tuple or a
  (state, action) tuple. Only the first kind can be sent as JSON.
\<close>

datatype pykey = KStr string | KState state | KStateAction state action

datatype json =
    JNull
  | JBool bool
  | JInt int
  | JNum real
  | JStr string
  | JList "json list"
  | JDict "(pykey \<times> json) list"

text \<open>An exception value: \<^verbatim>\<open>str(e)\<close> and \<^verbatim>\<open>traceback.format_exc()\<close>.\<close>

datatype exn = Exception string string

text \<open>
  Python's global random generator, the only hidden state that the handlers could
  read: the stream of the numbers that \<^verbatim>\<open>random.random()\<close> will return.
\<close>

type_synonym rng = "nat \<Rightarrow> real"

definition random_random :: "rng \<Rightarrow> real \<times> rng" where
  "random_random g = (g 0, \<lambda>n. g (Suc n))"

subsection \<open>\<^verbatim>\<open>str\<close> of integers and of states\<close>

definition digit_char :: "nat \<Rightarrow> char" where
  "digit_char d = ''0123456789'' ! d"

function str_nat :: "nat \<Rightarrow> string" where
  "str_nat n = (if n < 10 then [digit_char n] else str_nat (n div 10) @ [digit_char (n mod 10)])"
  by pat_completeness auto
termination
  by (relation "measure id") auto

declare str_nat.simps [simp del]

definition str_int :: "int \<Rightarrow> string" where
  "str_int i = (if i < 0 then CHR ''-'' # str_nat (nat (- i)) else str_nat (nat i))"

text \<open>\<^verbatim>\<open>str((x, y))\<close> is \<^verbatim>\<open>"(x, y)"\<close>; the sentinel is a string and prints as itself.\<close>

fun str_state :: "state \<Rightarrow> string" where
  "str_state (Pos x y) = ''('' @ str_int x @ '', '' @ str_int y @ '')''"
| "str_state TERMINAL_STATE = ''TERMINAL_STATE''"

text \<open>
  \<^verbatim>\<open>repr\<close> of a plain string (no quotes or escapes inside) and of a state, as they
  appear inside the \<^verbatim>\<open>str\<close> of a tuple.
\<close>

definition repr_str :: "string \<Rightarrow> string" where
  "repr_str s = [CHR 0x27] @ s @ [CHR 0x27]"

fun repr_state :: "state \<Rightarrow> string" where
  "repr_state (Pos x y) = str_state (Pos x y)"
| "repr_state TERMINAL_STATE = repr_str ''TERMINAL_STATE''"

fun str_key :: "pykey \<Rightarrow> string" where
  "str_key (KStr s) = s"
| "str_key (KState s) = str_state s"
| "str_key (KStateAction s a) = ''('' @ repr_state s @ '', '' @ repr_str a @ '')''"

subsection \<open>Dictionary helpers\<close>

text \<open>\<^verbatim>\<open>data.get(key, default)\<close> on the request body; \<open>None\<close> is an absent key.\<close>

definition data_get :: "'a option \<Rightarrow> 'a \<Rightarrow> 'a" where
  "data_get field dflt = (case field of None \<Rightarrow> dflt | Some v \<Rightarrow> v)"

text \<open>
  A Python dictionary: keys in insertion order, \<^verbatim>\<open>d[k] = v\<close> is \<open>AList.update k v d\<close>,
  \<^verbatim>\<open>k in d\<close> and \<^verbatim>\<open>d[k]\<close> are \<open>map_of d k\<close>.
\<close>

type_synonym 'v pydict = "(pykey \<times> 'v) list"

text \<open>The comprehension \<^verbatim>\<open>{str(k): v for k, v in values.items()}\<close>.\<close>

definition str_key_dict :: "'v pydict \<Rightarrow> 'v pydict" where
  "str_key_dict vals = foldl (\<lambda>d kv. AList.update (KStr (str_key (fst kv))) (snd kv) d) [] vals"

text \<open>Every dictionary inside a JSON value is keyed by strings.\<close>

fun is_KStr :: "pykey \<Rightarrow> bool" where
  "is_KStr (KStr s) = True"
| "is_KStr k = False"

primrec str_keyed :: "json \<Rightarrow> bool" where
  "str_keyed JNull = True"
| "str_keyed (JBool b) = True"
| "str_keyed (JInt i) = True"
| "str_keyed (JNum r) = True"
| "str_keyed (JStr s) = True"
| "str_keyed (JList js) = list_all id (map str_keyed js)"
| "str_keyed (JDict kvs) = list_all (\<lambda>kb. is_KStr (fst kb) \<and> snd kb) (map (map_prod id str_keyed) kvs)"

definition json_num_dict :: "real pydict \<Rightarrow> json" where
  "json_num_dict d = JDict (map (map_prod id JNum) d)"

text \<open>An action or \<^verbatim>\<open>None\<close> as a JSON value.\<close>

definition json_action :: "action option \<Rightarrow> json" where
  "json_action a = (case a of None \<Rightarrow> JNull | Some s \<Rightarrow> JStr s)"

definition json_action_dict :: "action option pydict \<Rightarrow> json" where
  "json_action_dict d = JDict (map (map_prod id json_action) d)"

section \<open>The gridworld, as the server uses it\<close>

text \<open>
  The module \<^verbatim>\<open>gridworld\<close> is not part of the sources at hand, so a gridworld is a
  parameter: a record of what the server reads from it. \<^verbatim>\<open>setNoise\<close> and
  \<^verbatim>\<open>setLivingReward\<close> store a number; the transition, reward and step functions
  receive the stored numbers at each call (no cached transition table). The step
  function is what \<^verbatim>\<open>GridworldEnvironment.doAction\<close> does from a current state: it
  may read the random generator and returns the next state and the reward. The
  queries are functions of their arguments and of the two stored numbers, and they
  return; the request fields have the types that the handlers expect (names are
  strings, counts are integers, rates are numbers).
\<close>

record gridworld =
  grid_width :: int
  grid_height :: int
  grid_cell :: "int \<Rightarrow> int \<Rightarrow> cell"
  noise :: real
  livingReward :: real
  getStates :: "state list"
  getPossibleActions :: "state \<Rightarrow> action list"
  getStartState :: state
  transitionFn :: "real \<Rightarrow> state \<Rightarrow> action \<Rightarrow> (state \<times> real) list"
  rewardFn :: "real \<Rightarrow> state \<Rightarrow> action \<Rightarrow> state \<Rightarrow> real"
  stepFn :: "real \<Rightarrow> real \<Rightarrow> state \<Rightarrow> action \<Rightarrow> rng \<Rightarrow> (state \<times> real) \<times> rng"

definition setNoise :: "real \<Rightarrow> gridworld \<Rightarrow> gridworld" where
  "setNoise n gw = gw\<lparr>noise := n\<rparr>"

definition setLivingReward :: "real \<Rightarrow> gridworld \<Rightarrow> gridworld" where
  "setLivingReward r gw = gw\<lparr>livingReward := r\<rparr>"

definition getTransitionStatesAndProbs :: "gridworld \<Rightarrow> state \<Rightarrow> action \<Rightarrow> (state \<times> real) list" where
  "getTransitionStatesAndProbs gw s a = transitionFn gw (noise gw) s a"

definition getReward :: "gridworld \<Rightarrow> state \<Rightarrow> action \<Rightarrow> state \<Rightarrow> real" where
  "getReward gw s a s' = rewardFn gw (livingReward gw) s a s'"

text \<open>
  The module namespace: \<^verbatim>\<open>getattr(gridworld, name, None)\<close> finds nothing, or finds a
  callable whose call raises or returns a gridworld.
\<close>

type_synonym gridworld_module = "string \<Rightarrow> (exn + gridworld) option"

section \<open>Value iteration\<close>

text \<open>
  Modelled from the spec: the class \<^verbatim>\<open>ValueIterationAgent\<close>, which is not part of the
  sources at hand. The value table maps states to numbers and a state without an
  entry reads as 0; it starts empty. Each of the K sweeps builds a new table by going
  through the states in the order of \<^verbatim>\<open>getStates()\<close>: for every non-terminal state
  with a legal action it stores the maximum over the legal actions of the expected
  reward plus discounted value, read from the table of the previous sweep (a batch
  update, not in place); a state with no legal actions gets no entry and keeps 0.
  After the whole sweep the new table replaces the old one.
\<close>

type_synonym value_table = "state \<Rightarrow> real option"

definition table_get :: "value_table \<Rightarrow> state \<Rightarrow> real" where
  "table_get V s = (case V s of None \<Rightarrow> 0 | Some v \<Rightarrow> v)"

definition lookahead :: "gridworld \<Rightarrow> real \<Rightarrow> value_table \<Rightarrow> state \<Rightarrow> action \<Rightarrow> real" where
  "lookahead gw discount V s a =
     sum_list (map (\<lambda>sp. snd sp * (getReward gw s a (fst sp) + discount * table_get V (fst sp)))
                   (getTransitionStatesAndProbs gw s a))"

text \<open>The new value of a state: the best lookahead, none without a legal action.\<close>

definition best_value :: "gridworld \<Rightarrow> real \<Rightarrow> value_table \<Rightarrow> state \<Rightarrow> real option" where
  "best_value gw discount V s =
     (case getPossibleActions gw s of
        [] \<Rightarrow> None
      | a # as \<Rightarrow> Some (foldl max (lookahead gw discount V s a) (map (lookahead gw discount V s) as)))"

text \<open>One round of the loop over the states inside a sweep: \<open>V\<close> is read, \<open>V'\<close> is built.\<close>

definition sweep_state :: "gridworld \<Rightarrow> real \<Rightarrow> value_table \<Rightarrow> value_table \<Rightarrow> state \<Rightarrow> value_table" where
  "sweep_state gw discount V V' s =
     (if s = TERMINAL_STATE then V'
      else case best_value gw discount V s of
             None \<Rightarrow> V'
           | Some v \<Rightarrow> V'(s \<mapsto> v))"

definition bellman_sweep :: "gridworld \<Rightarrow> real \<Rightarrow> value_table \<Rightarrow> value_table" where
  "bellman_sweep gw discount V = foldl (sweep_state gw discount V) Map.empty (getStates gw)"

record value_iteration_agent =
  via_mdp :: gridworld
  via_discount :: real
  via_values :: value_table

definition ValueIterationAgent :: "gridworld \<Rightarrow> real \<Rightarrow> int \<Rightarrow> value_iteration_agent" where
  "ValueIterationAgent gw discount iterations =
     \<lparr>via_mdp = gw, via_discount = discount,
      via_values = (bellman_sweep gw discount ^^ nat iterations) Map.empty\<rparr>"

text \<open>
  The first action with the greatest score, in the order of the action list;
  \<open>None\<close> when the list is empty.
\<close>

fun argmax_first :: "('a \<Rightarrow> real) \<Rightarrow> 'a list \<Rightarrow> 'a option" where
  "argmax_first f [] = None"
| "argmax_first f (a # as) = Some (foldl (\<lambda>best c. if f c > f best then c else best) a as)"

definition vi_getValue :: "value_iteration_agent \<Rightarrow> state \<Rightarrow> real" where
  "vi_getValue agent s = table_get (via_values agent) s"

definition vi_getQValue :: "value_iteration_agent \<Rightarrow> state \<Rightarrow> action \<Rightarrow> real" where
  "vi_getQValue agent s a = lookahead (via_mdp agent) (via_discount agent) (via_values agent) s a"

definition vi_getAction :: "value_iteration_agent \<Rightarrow> state \<Rightarrow> action option" where
  "vi_getAction agent s = argmax_first (vi_getQValue agent s) (getPossibleActions (via_mdp agent) s)"

section \<open>Serialising a gridworld\<close>

text \<open>
  \<^verbatim>\<open>serialize_gridworld_state(gw, state, agent, values, q_values)\<close>. The agent
  argument is never read by the function and is left out. The entry of one
  non-terminal state \<open>(x, y)\<close>:
\<close>

definition state_info :: "gridworld \<Rightarrow> real pydict option \<Rightarrow> real pydict option \<Rightarrow> int \<Rightarrow> int \<Rightarrow> json" where
  "state_info gw values q_values x y =
     (let s = Pos x y;
          c = grid_cell gw x y;
          info0 = [(KStr ''x'', JInt x),
                   (KStr ''y'', JInt y),
                   (KStr ''type'', JStr (case c of CellNum r \<Rightarrow> ''terminal'' | CellStr t \<Rightarrow> ''normal'')),
                   (KStr ''reward'', JNum (case c of CellNum r \<Rightarrow> r | CellStr t \<Rightarrow> livingReward gw)),
                   (KStr ''actions'', JList (map JStr (getPossibleActions gw s)))];
          info1 = (case values of
                     None \<Rightarrow> info0
                   | Some vs \<Rightarrow> (case map_of vs (KState s) of
                                  None \<Rightarrow> info0
                                | Some v \<Rightarrow> AList.update (KStr ''value'') (JNum v) info0));
          info2 = (case q_values of
                     None \<Rightarrow> info1
                   | Some qs \<Rightarrow>
                       AList.update (KStr ''qValues'')
                         (json_num_dict
                            (foldl (\<lambda>d a. case map_of qs (KStateAction s a) of
                                             None \<Rightarrow> d
                                           | Some q \<Rightarrow> AList.update (KStr a) q d)
                                   [] (getPossibleActions gw s)))
                         info1)
      in JDict info2)"

definition wall_list :: "gridworld \<Rightarrow> json list" where
  "wall_list gw =
     concat (map (\<lambda>x. concat (map (\<lambda>y. if grid_cell gw x y = CellStr ''#''
                                         then [JDict [(KStr ''x'', JInt x), (KStr ''y'', JInt y)]]
                                         else [])
                                   [0..grid_height gw - 1]))
                 [0..grid_width gw - 1])"

definition serialize_gridworld_state ::
    "gridworld \<Rightarrow> state option \<Rightarrow> real pydict option \<Rightarrow> real pydict option \<Rightarrow> json" where
  "serialize_gridworld_state gw st values q_values =
     JDict [(KStr ''width'', JInt (grid_width gw)),
            (KStr ''height'', JInt (grid_height gw)),
            (KStr ''currentState'', (case st of Some (Pos x y) \<Rightarrow> JList [JInt x, JInt y] | _ \<Rightarrow> JNull)),
            (KStr ''isTerminal'', JBool (st = Some TERMINAL_STATE)),
            (KStr ''states'',
               JList (concat (map (\<lambda>s. case s of
                                          TERMINAL_STATE \<Rightarrow> []
                                        | Pos x y \<Rightarrow> [state_info gw values q_values x y])
                                  (getStates gw)))),
            (KStr ''livingReward'', JNum (livingReward gw)),
            (KStr ''noise'', JNum (noise gw)),
            (KStr ''walls'', JList (wall_list gw))]"

section \<open>The handlers' results\<close>

text \<open>
  A handler returns a JSON body and an HTTP status. A lookup that finds nothing
  answers 404 with an \<^verbatim>\<open>error\<close> message; an exception caught by the handler's
  \<^verbatim>\<open>except Exception\<close> answers 500 with the message and the traceback.
\<close>

type_synonym response = "json \<times> nat"

definition not_found :: "string \<Rightarrow> response" where
  "not_found msg = (JDict [(KStr ''error'', JStr msg)], 404)"

fun internal_error :: "exn \<Rightarrow> response" where
  "internal_error (Exception msg tb) =
     (JDict [(KStr ''error'', JStr msg), (KStr ''traceback'', JStr tb)], 500)"

definition ok :: "json \<Rightarrow> response" where
  "ok body = (body, 200)"

section \<open>\<^verbatim>\<open>run_value_iteration\<close>\<close>

record vi_request =
  vi_grid :: "string option"
  vi_iterations :: "int option"
  vi_discount :: "real option"
  vi_noise :: "real option"
  vi_livingReward :: "real option"

text \<open>\<^verbatim>\<open>if best_action:\<close> holds for an action that is neither \<^verbatim>\<open>None\<close> nor empty.\<close>

definition truthy_action :: "action option \<Rightarrow> bool" where
  "truthy_action a = (case a of None \<Rightarrow> False | Some s \<Rightarrow> s \<noteq> [])"

text \<open>One round of the loop over \<^verbatim>\<open>gw.getStates()\<close> that fills the three dictionaries.\<close>

definition vi_collect ::
    "gridworld \<Rightarrow> value_iteration_agent \<Rightarrow> real pydict \<times> action option pydict \<times> real pydict \<Rightarrow> state
      \<Rightarrow> real pydict \<times> action option pydict \<times> real pydict" where
  "vi_collect gw agent acc s =
     (case acc of (values, policy, q_values) \<Rightarrow>
        if s \<noteq> TERMINAL_STATE then
          (AList.update (KState s) (vi_getValue agent s) values,
           (let best_action = vi_getAction agent s
            in if truthy_action best_action
               then AList.update (KStr (str_state s)) best_action policy
               else policy),
           foldl (\<lambda>q a. AList.update (KStateAction s a) (vi_getQValue agent s a) q)
                 q_values (getPossibleActions gw s))
        else acc)"

definition vi_tables ::
    "gridworld \<Rightarrow> value_iteration_agent \<Rightarrow> real pydict \<times> action option pydict \<times> real pydict" where
  "vi_tables gw agent = foldl (vi_collect gw agent) ([], [], []) (getStates gw)"

definition run_value_iteration :: "gridworld_module \<Rightarrow> vi_request \<Rightarrow> rng \<Rightarrow> response \<times> rng" where
  "run_value_iteration gridworld data g =
     (let grid_name = data_get (vi_grid data) ''BookGrid'';
          iterations = data_get (vi_iterations data) 100;
          discount = data_get (vi_discount data) 0.9;
          noise_arg = data_get (vi_noise data) 0.2;
          living_reward = data_get (vi_livingReward data) 0.0
      in case gridworld (''get'' @ grid_name) of
           None \<Rightarrow> (not_found (''Grid '' @ grid_name @ '' not found''), g)
         | Some (Inl e) \<Rightarrow> (internal_error e, g)
         | Some (Inr gw0) \<Rightarrow>
             (let gw = setLivingReward living_reward (setNoise noise_arg gw0);
                  agent = ValueIterationAgent gw discount iterations
              in case vi_tables gw agent of (values, policy, q_values) \<Rightarrow>
                   (ok (JDict [(KStr ''grid'', JStr grid_name),
                               (KStr ''iterations'', JInt iterations),
                               (KStr ''discount'', JNum discount),
                               (KStr ''noise'', JNum noise_arg),
                               (KStr ''livingReward'', JNum living_reward),
                               (KStr ''gridData'',
                                  serialize_gridworld_state gw None (Some values) (Some q_values)),
                               (KStr ''values'', json_num_dict (str_key_dict values)),
                               (KStr ''policy'', json_action_dict policy)]),
                    g)))"

section \<open>Tabular Q-learning\<close>

text \<open>
  Modelled from the spec: the class \<^verbatim>\<open>QLearningAgent\<close>, which is not part of the
  sources at hand. The Q-table maps (state, action) pairs to numbers and an unseen
  pair reads as 0. The value of a state is the maximum over its legal actions, 0 when
  there are none; the greedy action is the first legal action with the greatest
  Q-value, and no action when there are none. \<^verbatim>\<open>getAction\<close> is epsilon-greedy: with
  probability epsilon (one draw of the random generator below epsilon) a uniformly
  drawn legal action, otherwise the greedy one. \<^verbatim>\<open>startEpisode\<close> resets the
  per-episode reward, \<^verbatim>\<open>stopEpisode\<close> counts the episode.
\<close>

record qlearning_agent =
  qa_actionFn :: "state \<Rightarrow> action list"
  qa_epsilon :: real
  qa_alpha :: real
  qa_gamma :: real
  qa_qvalues :: "state \<times> action \<Rightarrow> real option"
  qa_episodeRewards :: real
  qa_episodesSoFar :: int

definition QLearningAgent :: "(state \<Rightarrow> action list) \<Rightarrow> real \<Rightarrow> real \<Rightarrow> real \<Rightarrow> qlearning_agent" where
  "QLearningAgent actionFn epsilon alpha gamma =
     \<lparr>qa_actionFn = actionFn, qa_epsilon = epsilon, qa_alpha = alpha, qa_gamma = gamma,
      qa_qvalues = Map.empty, qa_episodeRewards = 0, qa_episodesSoFar = 0\<rparr>"

definition q_getQValue :: "qlearning_agent \<Rightarrow> state \<Rightarrow> action \<Rightarrow> real" where
  "q_getQValue agent s a = (case qa_qvalues agent (s, a) of None \<Rightarrow> 0 | Some q \<Rightarrow> q)"

text \<open>\<^verbatim>\<open>max\<close> of a non-empty Python list.\<close>

fun py_max :: "real \<Rightarrow> real list \<Rightarrow> real" where
  "py_max q qs = foldl max q qs"

definition computeValueFromQValues :: "qlearning_agent \<Rightarrow> state \<Rightarrow> real" where
  "computeValueFromQValues agent s =
     (case qa_actionFn agent s of
        [] \<Rightarrow> 0
      | a # as \<Rightarrow> py_max (q_getQValue agent s a) (map (q_getQValue agent s) as))"

definition computeActionFromQValues :: "qlearning_agent \<Rightarrow> state \<Rightarrow> action option" where
  "computeActionFromQValues agent s = argmax_first (q_getQValue agent s) (qa_actionFn agent s)"

definition q_getPolicy :: "qlearning_agent \<Rightarrow> state \<Rightarrow> action option" where
  "q_getPolicy agent s = computeActionFromQValues agent s"

text \<open>A uniform choice from a non-empty list, from one draw \<open>u\<close> in \<open>[0, 1)\<close>.\<close>

definition random_choice :: "'a list \<Rightarrow> real \<Rightarrow> 'a" where
  "random_choice xs u = xs ! min (length xs - 1) (nat \<lfloor>u * real (length xs)\<rfloor>)"

definition q_getAction :: "qlearning_agent \<Rightarrow> state \<Rightarrow> rng \<Rightarrow> action option \<times> rng" where
  "q_getAction agent s g =
     (let legalActions = qa_actionFn agent s
      in if legalActions = [] then (None, g)
         else case random_random g of (u, g1) \<Rightarrow>
                if u < qa_epsilon agent
                then (case random_random g1 of (v, g2) \<Rightarrow> (Some (random_choice legalActions v), g2))
                else (computeActionFromQValues agent s, g1))"

definition q_update :: "qlearning_agent \<Rightarrow> state \<Rightarrow> action \<Rightarrow> state \<Rightarrow> real \<Rightarrow> qlearning_agent" where
  "q_update agent s a nextState reward =
     (let q = q_getQValue agent s a;
          sample = reward + qa_gamma agent * computeValueFromQValues agent nextState
      in agent\<lparr>qa_qvalues := (qa_qvalues agent)((s, a) \<mapsto> q + qa_alpha agent * (sample - q))\<rparr>)"

definition startEpisode :: "qlearning_agent \<Rightarrow> qlearning_agent" where
  "startEpisode agent = agent\<lparr>qa_episodeRewards := 0\<rparr>"

definition stopEpisode :: "qlearning_agent \<Rightarrow> qlearning_agent" where
  "stopEpisode agent = agent\<lparr>qa_episodesSoFar := qa_episodesSoFar agent + 1\<rparr>"

text \<open>
  Modelled from the spec: the class \<^verbatim>\<open>GridworldEnvironment\<close>, which is not part of the
  sources at hand. It is a pointer to the current state, which starts and is reset at
  the start state; \<^verbatim>\<open>doAction\<close> steps from the pointer and moves it.
\<close>

type_synonym environment = state

definition GridworldEnvironment :: "gridworld \<Rightarrow> environment" where
  "GridworldEnvironment gw = getStartState gw"

definition env_getCurrentState :: "environment \<Rightarrow> state" where
  "env_getCurrentState env = env"

definition env_reset :: "gridworld \<Rightarrow> environment \<Rightarrow> environment" where
  "env_reset gw env = getStartState gw"

definition env_doAction :: "gridworld \<Rightarrow> environment \<Rightarrow> action \<Rightarrow> rng \<Rightarrow> (state \<times> real) \<times> environment \<times> rng" where
  "env_doAction gw env a g =
     (case stepFn gw (noise gw) (livingReward gw) env a g of
        ((nextState, reward), g') \<Rightarrow> ((nextState, reward), nextState, g'))"

section \<open>\<^verbatim>\<open>start_qlearning\<close>\<close>

text \<open>What one episode leaves behind: agent, environment, generator, total reward, steps.\<close>

record episode_result =
  er_agent :: qlearning_agent
  er_env :: environment
  er_rng :: rng
  er_total_reward :: real
  er_steps :: int

text \<open>
  The \<^verbatim>\<open>while True\<close> loop of one training episode. It leaves when the state has no
  legal action, when the agent returns no action, when the terminal state is reached
  and when \<^verbatim>\<open>steps > 100\<close>.
\<close>

function ql_episode_loop ::
    "gridworld \<Rightarrow> qlearning_agent \<Rightarrow> environment \<Rightarrow> rng \<Rightarrow> state \<Rightarrow> real \<Rightarrow> int \<Rightarrow> episode_result" where
  "ql_episode_loop gw agent env g s total_reward steps =
     (if getPossibleActions gw s = []
      then \<lparr>er_agent = agent, er_env = env, er_rng = g, er_total_reward = total_reward, er_steps = steps\<rparr>
      else case q_getAction agent s g of
             (None, g1) \<Rightarrow>
               \<lparr>er_agent = agent, er_env = env, er_rng = g1, er_total_reward = total_reward, er_steps = steps\<rparr>
           | (Some a, g1) \<Rightarrow>
               (case env_doAction gw env a g1 of
                  ((next_state, reward), env1, g2) \<Rightarrow>
                    (let agent1 = q_update agent s a next_state reward;
                         agent2 = agent1\<lparr>qa_episodeRewards := qa_episodeRewards agent1 + reward\<rparr>
                     in if next_state = TERMINAL_STATE \<or> steps + 1 > 100
                        then \<lparr>er_agent = agent2, er_env = env1, er_rng = g2,
                              er_total_reward = total_reward + reward, er_steps = steps + 1\<rparr>
                        else ql_episode_loop gw agent2 env1 g2 next_state (total_reward + reward) (steps + 1))))"
  by pat_completeness auto
termination
  by (relation "measure (\<lambda>(gw, agent, env, g, s, total_reward, steps). nat (101 - steps))") auto

declare ql_episode_loop.simps [simp del]

text \<open>Python's \<^verbatim>\<open>%\<close> on integers raises on a zero divisor.\<close>

definition py_mod :: "int \<Rightarrow> int \<Rightarrow> exn + int" where
  "py_mod a b =
     (if b = 0 then Inl (Exception ''integer division or modulo by zero'' ''ZeroDivisionError'')
      else Inr (a mod b))"

text \<open>The sampling modulus of the training history: \<^verbatim>\<open>max(1, episodes // 20)\<close>.\<close>

definition history_modulus :: "int \<Rightarrow> int" where
  "history_modulus episodes = max 1 (episodes div 20)"

record train_state =
  tr_agent :: qlearning_agent
  tr_env :: environment
  tr_rng :: rng
  tr_results :: "(int \<times> real \<times> int) list"

text \<open>The body of \<^verbatim>\<open>for episode in range(episodes)\<close>, for one episode.\<close>

definition ql_episode :: "gridworld \<Rightarrow> int \<Rightarrow> train_state \<Rightarrow> int \<Rightarrow> exn + train_state" where
  "ql_episode gw episodes st episode =
     (let agent0 = startEpisode (tr_agent st);
          r = ql_episode_loop gw agent0 (tr_env st) (tr_rng st) (env_getCurrentState (tr_env st)) 0 0;
          agent1 = stopEpisode (er_agent r);
          env1 = env_reset gw (er_env r)
      in case py_mod episode (history_modulus episodes) of
           Inl e \<Rightarrow> Inl e
         | Inr m \<Rightarrow>
             Inr \<lparr>tr_agent = agent1, tr_env = env1, tr_rng = er_rng r,
                  tr_results = (if m = 0
                                then tr_results st @ [(episode, er_total_reward r, er_steps r)]
                                else tr_results st)\<rparr>)"

fun ql_train :: "gridworld \<Rightarrow> int \<Rightarrow> train_state \<Rightarrow> int list \<Rightarrow> exn + train_state" where
  "ql_train gw episodes st [] = Inr st"
| "ql_train gw episodes st (episode # rest) =
     (case ql_episode gw episodes st episode of
        Inl e \<Rightarrow> Inl e
      | Inr st1 \<Rightarrow> ql_train gw episodes st1 rest)"

text \<open>
  The summaries (episode index, total reward, step count) of all the episodes that a
  training run goes through, whether the history samples them or not: what the
  episode loop of each episode returns, from the state that the episodes before it
  left.
\<close>

fun episode_summaries :: "gridworld \<Rightarrow> int \<Rightarrow> train_state \<Rightarrow> int list \<Rightarrow> (int \<times> real \<times> int) list" where
  "episode_summaries gw episodes st [] = []"
| "episode_summaries gw episodes st (episode # rest) =
     (let r = ql_episode_loop gw (startEpisode (tr_agent st)) (tr_env st) (tr_rng st)
                (env_getCurrentState (tr_env st)) 0 0
      in (episode, er_total_reward r, er_steps r) #
         (case ql_episode gw episodes st episode of
            Inl e \<Rightarrow> []
          | Inr st1 \<Rightarrow> episode_summaries gw episodes st1 rest))"

text \<open>\<^verbatim>\<open>range(n)\<close>: the integers from 0 to \<open>n - 1\<close>, none when \<open>n \<le> 0\<close>.\<close>

definition py_range :: "int \<Rightarrow> int list" where
  "py_range n = [0..n - 1]"

text \<open>One round of the loop that reads the final tables off the trained agent.\<close>

definition ql_collect ::
    "gridworld \<Rightarrow> qlearning_agent \<Rightarrow> real pydict \<times> action option pydict \<times> real pydict \<Rightarrow> state
      \<Rightarrow> real pydict \<times> action option pydict \<times> real pydict" where
  "ql_collect gw agent acc s =
     (case acc of (values, policy, q_values) \<Rightarrow>
        if s \<noteq> TERMINAL_STATE then
          (case getPossibleActions gw s of
             [] \<Rightarrow> acc
           | a # as \<Rightarrow>
               (AList.update (KState s) (py_max (q_getQValue agent s a) (map (q_getQValue agent s) as)) values,
                AList.update (KStr (str_state s)) (q_getPolicy agent s) policy,
                foldl (\<lambda>q b. AList.update (KStateAction s b) (q_getQValue agent s b) q)
                      q_values (a # as)))
        else acc)"

definition ql_tables ::
    "gridworld \<Rightarrow> qlearning_agent \<Rightarrow> real pydict \<times> action option pydict \<times> real pydict" where
  "ql_tables gw agent = foldl (ql_collect gw agent) ([], [], []) (getStates gw)"

definition history_entry :: "int \<times> real \<times> int \<Rightarrow> json" where
  "history_entry r =
     (case r of (episode, total_reward, steps) \<Rightarrow>
        JDict [(KStr ''episode'', JInt episode),
               (KStr ''totalReward'', JNum total_reward),
               (KStr ''steps'', JInt steps)])"

record ql_request =
  ql_grid :: "string option"
  ql_episodes :: "int option"
  ql_epsilon :: "real option"
  ql_alpha :: "real option"
  ql_discount :: "real option"
  ql_noise :: "real option"
  ql_livingReward :: "real option"

definition start_qlearning :: "gridworld_module \<Rightarrow> ql_request \<Rightarrow> rng \<Rightarrow> response \<times> rng" where
  "start_qlearning gridworld data g =
     (let grid_name = data_get (ql_grid data) ''BookGrid'';
          episodes = data_get (ql_episodes data) 100;
          epsilon = data_get (ql_epsilon data) 0.3;
          alpha = data_get (ql_alpha data) 0.5;
          discount = data_get (ql_discount data) 0.9;
          noise_arg = data_get (ql_noise data) 0.2;
          living_reward = data_get (ql_livingReward data) 0.0
      in case gridworld (''get'' @ grid_name) of
           None \<Rightarrow> (not_found (''Grid '' @ grid_name @ '' not found''), g)
         | Some (Inl e) \<Rightarrow> (internal_error e, g)
         | Some (Inr gw0) \<Rightarrow>
             (let gw = setLivingReward living_reward (setNoise noise_arg gw0);
                  env = GridworldEnvironment gw;
                  agent = QLearningAgent (\<lambda>s. getPossibleActions gw s) epsilon alpha discount
              in case ql_train gw episodes
                        \<lparr>tr_agent = agent, tr_env = env, tr_rng = g, tr_results = []\<rparr>
                        (py_range episodes) of
                   Inl e \<Rightarrow> (internal_error e, g)
                 | Inr st \<Rightarrow>
                     (case ql_tables gw (tr_agent st) of (values, policy, q_values) \<Rightarrow>
                        (ok (JDict [(KStr ''grid'', JStr grid_name),
                                    (KStr ''episodes'', JInt episodes),
                                    (KStr ''epsilon'', JNum epsilon),
                                    (KStr ''alpha'', JNum alpha),
                                    (KStr ''discount'', JNum discount),
                                    (KStr ''trainingHistory'', JList (map history_entry (tr_results st))),
                                    (KStr ''gridData'',
                                       serialize_gridworld_state gw None (Some values) (Some q_values)),
                                    (KStr ''values'', json_num_dict (str_key_dict values)),
                                    (KStr ''policy'', json_action_dict policy)]),
                         tr_rng st))))"

section \<open>\<^verbatim>\<open>compare_algorithms\<close>\<close>

text \<open>
  The episode loop of the comparison, \<^verbatim>\<open>while state != gw.grid.terminalState\<close>. It
  leaves only at the terminal state or when the agent returns no action, so it may
  run forever: not returning is the value \<open>None\<close>.
\<close>

partial_function (option) cmp_episode_loop ::
    "gridworld \<Rightarrow> qlearning_agent \<Rightarrow> environment \<Rightarrow> rng \<Rightarrow> state
      \<Rightarrow> (qlearning_agent \<times> environment \<times> rng) option" where
  "cmp_episode_loop gw agent env g s =
     (if s \<noteq> TERMINAL_STATE
      then case q_getAction agent s g of
             (None, g1) \<Rightarrow> Some (agent, env, g1)
           | (Some a, g1) \<Rightarrow>
               (case env_doAction gw env a g1 of
                  ((next_state, reward), env1, g2) \<Rightarrow>
                    (let agent1 = q_update agent s a next_state reward;
                         agent2 = agent1\<lparr>qa_episodeRewards := qa_episodeRewards agent1 + reward\<rparr>
                     in cmp_episode_loop gw agent2 env1 g2 next_state))
      else Some (agent, env, g))"

text \<open>\<^verbatim>\<open>for _ in range(episodes)\<close>, over the list of the episode numbers.\<close>

fun cmp_train ::
    "gridworld \<Rightarrow> qlearning_agent \<times> environment \<times> rng \<Rightarrow> int list
      \<Rightarrow> (qlearning_agent \<times> environment \<times> rng) option" where
  "cmp_train gw st [] = Some st"
| "cmp_train gw (agent, env, g) (episode # rest) =
     (case cmp_episode_loop gw (startEpisode agent) env g (env_getCurrentState env) of
        None \<Rightarrow> None
      | Some (agent1, env1, g1) \<Rightarrow> cmp_train gw (stopEpisode agent1, env_reset gw env1, g1) rest)"

definition cmp_vi_collect ::
    "value_iteration_agent \<Rightarrow> real pydict \<times> action option pydict \<Rightarrow> state
      \<Rightarrow> real pydict \<times> action option pydict" where
  "cmp_vi_collect agent acc s =
     (case acc of (vi_values, vi_policy) \<Rightarrow>
        if s \<noteq> TERMINAL_STATE then
          (AList.update (KStr (str_state s)) (vi_getValue agent s) vi_values,
           (let a = vi_getAction agent s
            in if truthy_action a then AList.update (KStr (str_state s)) a vi_policy else vi_policy))
        else acc)"

definition cmp_ql_collect ::
    "gridworld \<Rightarrow> qlearning_agent \<Rightarrow> real pydict \<times> action option pydict \<Rightarrow> state
      \<Rightarrow> real pydict \<times> action option pydict" where
  "cmp_ql_collect gw agent acc s =
     (case acc of (ql_values, ql_policy) \<Rightarrow>
        if s \<noteq> TERMINAL_STATE then
          (case getPossibleActions gw s of
             [] \<Rightarrow> acc
           | a # as \<Rightarrow>
               (AList.update (KStr (str_state s))
                  (py_max (q_getQValue agent s a) (map (q_getQValue agent s) as)) ql_values,
                AList.update (KStr (str_state s)) (q_getPolicy agent s) ql_policy))
        else acc)"

record cmp_request =
  cmp_grid :: "string option"
  cmp_iterations :: "int option"
  cmp_episodes :: "int option"

definition compare_algorithms :: "gridworld_module \<Rightarrow> cmp_request \<Rightarrow> rng \<Rightarrow> (response \<times> rng) option" where
  "compare_algorithms gridworld data g =
     (let grid_name = data_get (cmp_grid data) ''BookGrid'';
          iterations = data_get (cmp_iterations data) 100;
          episodes = data_get (cmp_episodes data) 100
      in case gridworld (''get'' @ grid_name) of
           None \<Rightarrow> Some (not_found (''Grid '' @ grid_name @ '' not found''), g)
         | Some (Inl e) \<Rightarrow> Some (internal_error e, g)
         | Some (Inr gw) \<Rightarrow>
             (let vi_agent = ValueIterationAgent gw 0.9 iterations;
                  vi = foldl (cmp_vi_collect vi_agent) ([], []) (getStates gw);
                  env = GridworldEnvironment gw;
                  ql_agent = QLearningAgent (\<lambda>s. getPossibleActions gw s) 0.3 0.5 0.9
              in case cmp_train gw (ql_agent, env, g) (py_range episodes) of
                   None \<Rightarrow> None
                 | Some (trained, env1, g1) \<Rightarrow>
                     (let ql = foldl (cmp_ql_collect gw trained) ([], []) (getStates gw)
                      in Some (ok (JDict
                           [(KStr ''grid'', JStr grid_name),
                            (KStr ''comparisons'',
                               JList [JDict [(KStr ''algorithm'', JStr ''Value Iteration''),
                                             (KStr ''iterations'', JInt iterations),
                                             (KStr ''values'', json_num_dict (fst vi)),
                                             (KStr ''policy'', json_action_dict (snd vi))],
                                      JDict [(KStr ''algorithm'', JStr ''Q-Learning''),
                                             (KStr ''episodes'', JInt episodes),
                                             (KStr ''values'', json_num_dict (fst ql)),
                                             (KStr ''policy'', json_action_dict (snd ql))]])]),
                          g1))))"

section \<open>\<^verbatim>\<open>run_pacman_game\<close>\<close>

text \<open>
  The Pacman engine (\<^verbatim>\<open>layout\<close>, \<^verbatim>\<open>pacman\<close>, the agents) is not part of the sources at
  hand; the handler is modelled over what it passes to the engine and what it reads
  from the games that the engine returns.
\<close>

record layout =
  lay_numGhosts :: int

datatype pacman_agent =
    PacmanQAgent real real real int
  | ApproximateQAgent string real real real int
  | RandomAgent

record rungames_args =
  rg_layout :: layout
  rg_agent :: pacman_agent
  rg_ghosts :: "int list"
  rg_numGames :: int
  rg_record :: bool
  rg_numTraining :: int
  rg_catchExceptions :: bool
  rg_timeout :: int

text \<open>
  The final state of a game, as far as \<^verbatim>\<open>serialize_game_state\<close> reads it. The state is
  a game state of the engine: it is not \<^verbatim>\<open>None\<close>, it has every attribute that the
  serialiser probes with \<^verbatim>\<open>hasattr\<close>, and its accessors return.
\<close>

record game_state =
  gs_score :: real
  gs_pacmanPosition :: "int \<times> int"
  gs_ghostPositions :: "(int \<times> int) list"
  gs_food :: "bool list list"
  gs_capsules :: "(int \<times> int) list"
  gs_isWin :: bool
  gs_isLose :: bool
  gs_width :: int
  gs_height :: int
  gs_walls :: "bool list list"

definition json_pos :: "int \<times> int \<Rightarrow> json" where
  "json_pos p = JList [JInt (fst p), JInt (snd p)]"

definition serialize_game_state :: "game_state \<Rightarrow> json" where
  "serialize_game_state st =
     JDict [(KStr ''score'', JNum (gs_score st)),
            (KStr ''pacmanPosition'', json_pos (gs_pacmanPosition st)),
            (KStr ''ghostPositions'', JList (map json_pos (gs_ghostPositions st))),
            (KStr ''food'', JList (map (\<lambda>col. JList (map JBool col)) (gs_food st))),
            (KStr ''capsules'', JList (map json_pos (gs_capsules st))),
            (KStr ''isWin'', JBool (gs_isWin st)),
            (KStr ''isLose'', JBool (gs_isLose st)),
            (KStr ''width'', JInt (gs_width st)),
            (KStr ''height'', JInt (gs_height st)),
            (KStr ''walls'', JList (map (\<lambda>col. JList (map JBool col)) (gs_walls st)))]"

record pacman_engine =
  getLayout :: "string \<Rightarrow> layout option"
  runGames :: "rungames_args \<Rightarrow> rng \<Rightarrow> (exn + game_state list) \<times> rng"

record pacman_request =
  pm_layout :: "string option"
  pm_agent :: "string option"
  pm_numTraining :: "int option"
  pm_numGames :: "int option"
  pm_epsilon :: "real option"
  pm_alpha :: "real option"
  pm_discount :: "real option"

text \<open>The slice \<^verbatim>\<open>xs[n:]\<close>; a negative \<open>n\<close> counts from the end.\<close>

definition py_slice_from :: "int \<Rightarrow> 'a list \<Rightarrow> 'a list" where
  "py_slice_from n xs = (if 0 \<le> n then drop (nat n) xs else drop (nat (int (length xs) + n)) xs)"

text \<open>\<^verbatim>\<open>games[num_training:] if len(games) > num_training else games\<close>\<close>

definition test_games :: "int \<Rightarrow> 'a list \<Rightarrow> 'a list" where
  "test_games num_training games =
     (if int (length games) > num_training then py_slice_from num_training games else games)"

text \<open>Python's \<^verbatim>\<open>/\<close> raises on a zero divisor.\<close>

definition py_truediv :: "real \<Rightarrow> real \<Rightarrow> exn + real" where
  "py_truediv a b =
     (if b = 0 then Inl (Exception ''division by zero'' ''ZeroDivisionError'') else Inr (a / b))"

record summary =
  sm_wins :: int
  sm_losses :: int
  sm_avgScore :: real

definition summarise :: "game_state list \<Rightarrow> exn + summary" where
  "summarise tg =
     (case (if tg \<noteq> [] then py_truediv (sum_list (map gs_score tg)) (real (length tg)) else Inr 0) of
        Inl e \<Rightarrow> Inl e
      | Inr avg \<Rightarrow>
          Inr \<lparr>sm_wins = int (length (filter gs_isWin tg)),
               sm_losses = int (length (filter gs_isLose tg)),
               sm_avgScore = avg\<rparr>)"

definition make_agent :: "string \<Rightarrow> real \<Rightarrow> real \<Rightarrow> real \<Rightarrow> int \<Rightarrow> pacman_agent" where
  "make_agent agent_type epsilon alpha discount num_training =
     (if agent_type = ''PacmanQAgent'' then PacmanQAgent epsilon alpha discount num_training
      else if agent_type = ''ApproximateQAgent''
      then ApproximateQAgent ''SimpleExtractor'' epsilon alpha discount num_training
      else RandomAgent)"

text \<open>The arguments of the call \<^verbatim>\<open>pacman.runGames(...)\<close>.\<close>

definition rungames_call :: "layout \<Rightarrow> pacman_request \<Rightarrow> rungames_args" where
  "rungames_call lay data =
     (let agent_type = data_get (pm_agent data) ''PacmanQAgent'';
          num_training = data_get (pm_numTraining data) 10;
          num_games = data_get (pm_numGames data) 1;
          epsilon = data_get (pm_epsilon data) 0.05;
          alpha = data_get (pm_alpha data) 0.2;
          discount = data_get (pm_discount data) 0.8
      in \<lparr>rg_layout = lay,
          rg_agent = make_agent agent_type epsilon alpha discount num_training,
          rg_ghosts = map (\<lambda>i. i + 1) (py_range (lay_numGhosts lay)),
          rg_numGames = num_training + num_games,
          rg_record = False,
          rg_numTraining = num_training,
          rg_catchExceptions = True,
          rg_timeout = 30\<rparr>)"

definition game_entry :: "nat \<Rightarrow> game_state \<Rightarrow> json" where
  "game_entry i st =
     JDict [(KStr ''gameIndex'', JInt (int i)),
            (KStr ''score'', JNum (gs_score st)),
            (KStr ''isWin'', JBool (gs_isWin st)),
            (KStr ''isLose'', JBool (gs_isLose st)),
            (KStr ''finalState'', serialize_game_state st)]"

definition json_summary :: "summary \<Rightarrow> json" where
  "json_summary sm =
     JDict [(KStr ''wins'', JInt (sm_wins sm)),
            (KStr ''losses'', JInt (sm_losses sm)),
            (KStr ''avgScore'', JNum (sm_avgScore sm))]"

definition run_pacman_game :: "pacman_engine \<Rightarrow> pacman_request \<Rightarrow> rng \<Rightarrow> response \<times> rng" where
  "run_pacman_game engine data g =
     (let layout_name = data_get (pm_layout data) ''smallGrid'';
          agent_type = data_get (pm_agent data) ''PacmanQAgent'';
          num_training = data_get (pm_numTraining data) 10;
          num_games = data_get (pm_numGames data) 1
      in case getLayout engine layout_name of
           None \<Rightarrow> (not_found (''Layout '' @ layout_name @ '' not found''), g)
         | Some lay \<Rightarrow>
             (case runGames engine (rungames_call lay data) g of
                (Inl e, g1) \<Rightarrow> (internal_error e, g1)
              | (Inr games, g1) \<Rightarrow>
                  (let tg = test_games num_training games
                   in case summarise tg of
                        Inl e \<Rightarrow> (internal_error e, g1)
                      | Inr sm \<Rightarrow>
                          (ok (JDict [(KStr ''layout'', JStr layout_name),
                                      (KStr ''agent'', JStr agent_type),
                                      (KStr ''numTraining'', JInt num_training),
                                      (KStr ''numGames'', JInt num_games),
                                      (KStr ''games'', JList (map (\<lambda>(i, st). game_entry i st) (enumerate 0 tg))),
                                      (KStr ''summary'', json_summary sm)]),
                           g1))))"

section \<open>Reading a response, and example inputs\<close>

text \<open>The entry of a JSON object under a string key.\<close>

fun json_lookup :: "string \<Rightarrow> json \<Rightarrow> json option" where
  "json_lookup k (JDict kvs) = map_of kvs (KStr k)"
| "json_lookup k j = None"

text \<open>The value table and the Q-table of a triple of tables hold zeros only.\<close>

definition zero_tables :: "real pydict \<times> action option pydict \<times> real pydict \<Rightarrow> bool" where
  "zero_tables acc \<longleftrightarrow> (\<forall>kv \<in> set (fst acc). snd kv = 0) \<and> (\<forall>kv \<in> set (snd (snd acc)). snd kv = 0)"

text \<open>
  A gridworld with a start cell \<open>(0, 0)\<close>, an exit cell \<open>(1, 0)\<close> of reward 1 and an
  isolated cell \<open>(2, 0)\<close> from which no action is legal. Moves are deterministic:
  \<^verbatim>\<open>east\<close> from the start reaches the exit, every other move stays.
\<close>

definition corridor_next :: "state \<Rightarrow> action \<Rightarrow> state" where
  "corridor_next s a =
     (if s = Pos 1 0 then TERMINAL_STATE
      else if s = Pos 0 0 \<and> a = ''east'' then Pos 1 0
      else s)"

definition corridor_reward :: "real \<Rightarrow> state \<Rightarrow> real" where
  "corridor_reward living s = (if s = Pos 1 0 then 1 else living)"

definition corridor :: gridworld where
  "corridor =
     \<lparr>grid_width = 3, grid_height = 1,
      grid_cell = (\<lambda>x y. if x = 1 then CellNum 1 else if x = 0 then CellStr ''S'' else CellStr '' ''),
      noise = 0.2, livingReward = 0,
      getStates = [TERMINAL_STATE, Pos 0 0, Pos 1 0, Pos 2 0],
      getPossibleActions =
        (\<lambda>s. if s = Pos 0 0 then [''north'', ''west'', ''south'', ''east'']
              else if s = Pos 1 0 then [''exit''] else []),
      getStartState = Pos 0 0,
      transitionFn = (\<lambda>n s a. [(corridor_next s a, 1)]),
      rewardFn = (\<lambda>living s a s'. corridor_reward living s),
      stepFn = (\<lambda>n living s a g. ((corridor_next s a, corridor_reward living s), g))\<rparr>"

text \<open>A closed room: one open cell, every move bumps into the wall and stays.\<close>

definition closed_room :: gridworld where
  "closed_room =
     \<lparr>grid_width = 1, grid_height = 1,
      grid_cell = (\<lambda>x y. CellStr ''S''),
      noise = 0.2, livingReward = 0,
      getStates = [TERMINAL_STATE, Pos 0 0],
      getPossibleActions =
        (\<lambda>s. if s = TERMINAL_STATE then [] else [''north'', ''west'', ''south'', ''east'']),
      getStartState = Pos 0 0,
      transitionFn = (\<lambda>n s a. [(s, 1)]),
      rewardFn = (\<lambda>living s a s'. living),
      stepFn = (\<lambda>n living s a g. ((s, living), g))\<rparr>"

text \<open>
  A stream of random numbers under which the epsilon-greedy agent always explores and
  draws the last of four actions, or the only action: on the corridor, \<^verbatim>\<open>east\<close> and
  then \<^verbatim>\<open>exit\<close>.
\<close>

definition east_stream :: rng where
  "east_stream n = (if even n then 0 else 3 / 4)"

text \<open>A module namespace that offers the two grids above and nothing else.\<close>

definition example_module :: gridworld_module where
  "example_module name =
     (if name = ''getCorridorGrid'' then Some (Inr corridor)
      else if name = ''getClosedRoom'' then Some (Inr closed_room)
      else None)"

text \<open>A layout with one ghost.\<close>

definition small_layout :: layout where
  "small_layout = \<lparr>lay_numGhosts = 1\<rparr>"

text \<open>
  An engine that knows the layout \<^verbatim>\<open>smallGrid\<close> only and whose \<^verbatim>\<open>runGames\<close> has a fixed
  outcome: it raises, or returns the given games.
\<close>

definition scripted_engine :: "(exn + game_state list) \<Rightarrow> pacman_engine" where
  "scripted_engine outcome =
     \<lparr>getLayout = (\<lambda>name. if name = ''smallGrid'' then Some small_layout else None),
      runGames = (\<lambda>args g. (outcome, g))\<rparr>"

section \<open>The history sampling modulus\<close>

lemma history_modulus_ge1: "1 \<le> history_modulus n"
  by (simp add: history_modulus_def)

lemma history_modulus_small: "n < 40 \<Longrightarrow> history_modulus n = 1"
  unfolding history_modulus_def by linarith

lemma py_mod_history: "py_mod e (history_modulus n) = Inr (e mod history_modulus n)"
  using history_modulus_ge1[of n] by (simp add: py_mod_def)

lemma ql_episode_Inr: "\<exists>st'. ql_episode gw n st e = Inr st'"
  by (simp add: ql_episode_def Let_def py_mod_history)

lemma ql_train_Inr: "\<exists>st'. ql_train gw n st es = Inr st'"
proof (induction es arbitrary: st)
  case Nil
  show ?case by simp
next
  case (Cons e es)
  obtain st1 where "ql_episode gw n st e = Inr st1"
    using ql_episode_Inr by blast
  then show ?case using Cons.IH[of st1] by simp
qed

section \<open>The summary of a Pacman run\<close>

lemma summarise_total: "\<exists>sm. summarise tg = Inr sm"
  by (cases tg) (auto simp: summarise_def py_truediv_def)

lemma summarise_empty: "summarise [] = Inr \<lparr>sm_wins = 0, sm_losses = 0, sm_avgScore = 0\<rparr>"
  by (simp add: summarise_def)

lemma test_games_empty_iff: "test_games n games = [] \<longleftrightarrow> games = []"
  by (cases games) (auto simp: test_games_def py_slice_from_def)

lemma test_games_fallback: "int (length games) \<le> n \<Longrightarrow> test_games n games = games"
  by (simp add: test_games_def)

lemma test_games_slice:
  "0 \<le> n \<Longrightarrow> n < int (length games) \<Longrightarrow> test_games n games = drop (nat n) games"
  by (simp add: test_games_def py_slice_from_def)

lemma run_pacman_game_ok:
  assumes "getLayout engine (data_get (pm_layout data) ''smallGrid'') = Some lay"
    and "runGames engine (rungames_call lay data) g = (Inr games, g1)"
    and "summarise (test_games (data_get (pm_numTraining data) 10) games) = Inr sm"
  shows "\<exists>body. run_pacman_game engine data g = (ok body, g1)
           \<and> json_lookup ''summary'' body = Some (json_summary sm)"
  using assms by (simp add: run_pacman_game_def Let_def ok_def)

text \<open>
  C10. When the engine returns games, the handler answers 200 with a summary. If the
  list of evaluation games is empty the average score is 0 (the division is not
  reached, so no division by zero); and when the engine returns no more games than
  \<^verbatim>\<open>numTraining\<close>, the summary is the one of all the returned games.
\<close>

theorem empty_evaluation_average_zero:
  assumes "getLayout engine (data_get (pm_layout data) ''smallGrid'') = Some lay"
    and "runGames engine (rungames_call lay data) g = (Inr games, g1)"
  shows "\<exists>sm body. run_pacman_game engine data g = (ok body, g1)
           \<and> json_lookup ''summary'' body = Some (json_summary sm)
           \<and> (test_games (data_get (pm_numTraining data) 10) games = [] \<longrightarrow> sm_avgScore sm = 0)
           \<and> (int (length games) \<le> data_get (pm_numTraining data) 10 \<longrightarrow> summarise games = Inr sm)"
proof -
  let ?n = "data_get (pm_numTraining data) 10"
  obtain sm where sm: "summarise (test_games ?n games) = Inr sm"
    using summarise_total by blast
  obtain body where b: "run_pacman_game engine data g = (ok body, g1)"
      "json_lookup ''summary'' body = Some (json_summary sm)"
    using run_pacman_game_ok[OF assms sm] by blast
  have "test_games ?n games = [] \<longrightarrow> sm_avgScore sm = 0"
    using sm by (auto simp: summarise_empty)
  moreover have "int (length games) \<le> ?n \<longrightarrow> summarise games = Inr sm"
    using sm by (auto simp: test_games_fallback)
  ultimately show ?thesis using b by blast
qed

theorem empty_evaluation_witness:
  "\<exists>sm body. run_pacman_game (scripted_engine (Inr []))
                \<lparr>pm_layout = None, pm_agent = None, pm_numTraining = Some 2, pm_numGames = Some 0,
                 pm_epsilon = None, pm_alpha = None, pm_discount = None\<rparr> (\<lambda>n. 0) = (ok body, (\<lambda>n. 0))
       \<and> json_lookup ''summary'' body = Some (json_summary sm) \<and> sm_avgScore sm = 0
       \<and> summarise [] = Inr sm"
  using empty_evaluation_average_zero [of "scripted_engine (Inr [])"
      "\<lparr>pm_layout = None, pm_agent = None, pm_numTraining = Some 2, pm_numGames = Some 0,
                 pm_epsilon = None, pm_alpha = None, pm_discount = None\<rparr>" small_layout "\<lambda>n. 0" "[]" "\<lambda>n. 0"]
  by (simp add: scripted_engine_def data_get_def test_games_def)

section \<open>Unknown names\<close>

text \<open>
  C3. When the grid name (value iteration, Q-learning, comparison) or the layout
  name (Pacman) is not found, the handler returns at once: the result is the status
  404, the kind of the failure, with a body that holds only the \<^verbatim>\<open>error\<close> message;
  the random generator is untouched, and the result depends on nothing else (no
  solver, trainer or engine call).
\<close>

theorem unknown_name_is_not_found:
  "(gridworld (''get'' @ data_get (vi_grid d1) ''BookGrid'') = None \<longrightarrow>
      run_value_iteration gridworld d1 g =
        ((JDict [(KStr ''error'', JStr (''Grid '' @ data_get (vi_grid d1) ''BookGrid'' @ '' not found''))], 404), g))
   \<and> (gridworld (''get'' @ data_get (ql_grid d2) ''BookGrid'') = None \<longrightarrow>
      start_qlearning gridworld d2 g =
        ((JDict [(KStr ''error'', JStr (''Grid '' @ data_get (ql_grid d2) ''BookGrid'' @ '' not found''))], 404), g))
   \<and> (gridworld (''get'' @ data_get (cmp_grid d3) ''BookGrid'') = None \<longrightarrow>
      compare_algorithms gridworld d3 g =
        Some ((JDict [(KStr ''error'', JStr (''Grid '' @ data_get (cmp_grid d3) ''BookGrid'' @ '' not found''))], 404), g))
   \<and> (getLayout engine (data_get (pm_layout d4) ''smallGrid'') = None \<longrightarrow>
      run_pacman_game engine d4 g =
        ((JDict [(KStr ''error'', JStr (''Layout '' @ data_get (pm_layout d4) ''smallGrid'' @ '' not found''))], 404), g))"
  by (simp add: run_value_iteration_def start_qlearning_def compare_algorithms_def
        run_pacman_game_def not_found_def Let_def)

theorem unknown_name_witness:
  "run_value_iteration example_module
      \<lparr>vi_grid = Some ''MarsGrid'', vi_iterations = None, vi_discount = None, vi_noise = None,
       vi_livingReward = None\<rparr> (\<lambda>n. 0)
     = ((JDict [(KStr ''error'', JStr ''Grid MarsGrid not found'')], 404), (\<lambda>n. 0))
   \<and> start_qlearning example_module
      \<lparr>ql_grid = None, ql_episodes = None, ql_epsilon = None, ql_alpha = None, ql_discount = None,
       ql_noise = None, ql_livingReward = None\<rparr> (\<lambda>n. 0)
     = ((JDict [(KStr ''error'', JStr ''Grid BookGrid not found'')], 404), (\<lambda>n. 0))
   \<and> compare_algorithms example_module
      \<lparr>cmp_grid = Some ''MarsGrid'', cmp_iterations = None, cmp_episodes = None\<rparr> (\<lambda>n. 0)
     = Some ((JDict [(KStr ''error'', JStr ''Grid MarsGrid not found'')], 404), (\<lambda>n. 0))
   \<and> run_pacman_game (scripted_engine (Inr []))
      \<lparr>pm_layout = Some ''noSuchMaze'', pm_agent = None, pm_numTraining = None, pm_numGames = None,
       pm_epsilon = None, pm_alpha = None, pm_discount = None\<rparr> (\<lambda>n. 0)
     = ((JDict [(KStr ''error'', JStr ''Layout noSuchMaze not found'')], 404), (\<lambda>n. 0))"
  using unknown_name_is_not_found [of example_module
      "\<lparr>vi_grid = Some ''MarsGrid'', vi_iterations = None, vi_discount = None, vi_noise = None,
       vi_livingReward = None\<rparr>" "\<lambda>n. 0"
      "\<lparr>ql_grid = None, ql_episodes = None, ql_epsilon = None, ql_alpha = None, ql_discount = None,
       ql_noise = None, ql_livingReward = None\<rparr>"
      "\<lparr>cmp_grid = Some ''MarsGrid'', cmp_iterations = None, cmp_episodes = None\<rparr>"
      "scripted_engine (Inr [])"
      "\<lparr>pm_layout = Some ''noSuchMaze'', pm_agent = None, pm_numTraining = None, pm_numGames = None,
       pm_epsilon = None, pm_alpha = None, pm_discount = None\<rparr>"]
  by (simp add: example_module_def scripted_engine_def data_get_def)

section \<open>Determinism of value iteration\<close>


lemma lookahead_states [simp]:
  "lookahead (gw\<lparr>getStates := ys\<rparr>) = lookahead gw"
  by (intro ext) (simp add: lookahead_def getReward_def getTransitionStatesAndProbs_def)

lemma best_value_states [simp]:
  "best_value (gw\<lparr>getStates := ys\<rparr>) discount V = best_value gw discount V"
  by (rule ext) (simp add: best_value_def split: list.split)






section \<open>Facts about the episode loops\<close>

lemma q_getAction_some:
  assumes "qa_actionFn agent s \<noteq> []"
  shows "\<exists>a g1. q_getAction agent s g = (Some a, g1)"
proof -
  obtain b bs where l: "qa_actionFn agent s = b # bs"
    using assms by (cases "qa_actionFn agent s") auto
  then show ?thesis
    by (auto simp: q_getAction_def Let_def computeActionFromQValues_def split: prod.split)
qed

lemma q_update_actionFn [simp]: "qa_actionFn (q_update agent s a s' r) = qa_actionFn agent"
  by (simp add: q_update_def Let_def)

lemma startEpisode_actionFn [simp]: "qa_actionFn (startEpisode agent) = qa_actionFn agent"
  by (simp add: startEpisode_def)

lemma ql_episode_loop_steps:
  "steps \<le> er_steps (ql_episode_loop gw agent env g s total_reward steps)
   \<and> er_steps (ql_episode_loop gw agent env g s total_reward steps) \<le> max (steps + 1) 101"
proof (induction gw agent env g s total_reward steps rule: ql_episode_loop.induct)
  case (1 gw agent env g s total_reward steps)
  show ?case
  proof (cases "getPossibleActions gw s = []")
    case True
    then show ?thesis by (simp add: ql_episode_loop.simps)
  next
    case False
    obtain ao g1 where ga: "q_getAction agent s g = (ao, g1)" by (cases "q_getAction agent s g")
    show ?thesis
    proof (cases ao)
      case None
      with False ga show ?thesis by (simp add: ql_episode_loop.simps)
    next
      case (Some a)
      obtain ns rw env1 g2 where da: "env_doAction gw env a g1 = ((ns, rw), env1, g2)"
        by (cases "env_doAction gw env a g1") auto
      show ?thesis
      proof (cases "ns = TERMINAL_STATE \<or> steps + 1 > 100")
        case True
        with False ga Some da show ?thesis
          by (subst (1 2) ql_episode_loop.simps) (auto simp: Let_def)
      next
        case stop: False
        have ih: "steps + 1 \<le> er_steps (ql_episode_loop gw
                    ((q_update agent s a ns rw)\<lparr>qa_episodeRewards := qa_episodeRewards (q_update agent s a ns rw) + rw\<rparr>)
                    env1 g2 ns (total_reward + rw) (steps + 1))
              \<and> er_steps (ql_episode_loop gw
                    ((q_update agent s a ns rw)\<lparr>qa_episodeRewards := qa_episodeRewards (q_update agent s a ns rw) + rw\<rparr>)
                    env1 g2 ns (total_reward + rw) (steps + 1)) \<le> max (steps + 1 + 1) 101"
          using "1.IH"[OF False ga[symmetric] Some da[symmetric] refl refl refl refl stop] .
        from False ga Some da stop ih show ?thesis
          by (subst (1 2) ql_episode_loop.simps) (auto simp: Let_def)
      qed
    qed
  qed
qed

lemma closed_room_step [simp]:
  "env_doAction closed_room env a g = ((env, 0), env, g)"
  by (simp add: env_doAction_def closed_room_def)

lemma cmp_loop_closed_room:
  assumes "cmp_episode_loop gw agent env g s = Some y"
  shows "\<not> (gw = closed_room \<and> s = Pos 0 0 \<and> env = Pos 0 0
            \<and> qa_actionFn agent = getPossibleActions closed_room)"
proof (rule cmp_episode_loop.raw_induct
    [where P = "\<lambda>gw agent env g s y. \<not> (gw = closed_room \<and> s = Pos 0 0 \<and> env = Pos 0 0
            \<and> qa_actionFn agent = getPossibleActions closed_room)", OF _ assms], goal_cases)
  case (1 loop gw agent env g s y)
  show ?case
  proof
    assume inv: "gw = closed_room \<and> s = Pos 0 0 \<and> env = Pos 0 0
            \<and> qa_actionFn agent = getPossibleActions closed_room"
    then have "qa_actionFn agent s \<noteq> []" by (simp add: closed_room_def)
    then obtain a g1 where ga: "q_getAction agent s g = (Some a, g1)"
      using q_getAction_some by blast
    let ?agent2 = "(q_update agent s a (Pos 0 0) 0)\<lparr>qa_episodeRewards :=
                      qa_episodeRewards (q_update agent s a (Pos 0 0) 0) + 0\<rparr>"
    from "1"(2) inv ga have "loop closed_room ?agent2 (Pos 0 0) g1 (Pos 0 0) = Some y"
      by (simp add: Let_def)
    from "1"(1)[OF this] inv show False by simp
  qed
qed

section \<open>String keys\<close>

lemma str_keyed_JDict:
  "str_keyed (JDict kvs) \<longleftrightarrow> (\<forall>kv \<in> set kvs. is_KStr (fst kv) \<and> str_keyed (snd kv))"
  by (auto simp: list_all_iff)

lemma str_keyed_JList: "str_keyed (JList js) \<longleftrightarrow> (\<forall>j \<in> set js. str_keyed j)"
  by (auto simp: list_all_iff)

declare str_keyed.simps(6,7) [simp del]
declare str_keyed_JDict [simp] str_keyed_JList [simp]

lemma update_entry:
  "kv \<in> set (AList.update k v al) \<Longrightarrow> kv = (k, v) \<or> kv \<in> set al"
  by (induction al) (auto split: if_splits)

lemma update_key:
  "kv \<in> set (AList.update k v al) \<Longrightarrow> fst kv = k \<or> kv \<in> set al"
  using update_entry by fastforce

lemma str_keyed_num_dict:
  "str_keyed (json_num_dict d) \<longleftrightarrow> (\<forall>kv \<in> set d. is_KStr (fst kv))"
  by (auto simp: json_num_dict_def str_keyed_JDict)

lemma str_keyed_action_dict:
  "str_keyed (json_action_dict d) \<longleftrightarrow> (\<forall>kv \<in> set d. is_KStr (fst kv))"
  by (auto simp: json_action_dict_def str_keyed_JDict json_action_def split: option.split)

lemma foldl_str_keys:
  assumes "\<forall>kv \<in> set d. is_KStr (fst kv)"
  shows "\<forall>kv \<in> set (foldl (\<lambda>d kv. AList.update (KStr (f kv)) (h kv) d) d xs). is_KStr (fst kv)"
  using assms
proof (induction xs arbitrary: d)
  case Nil
  then show ?case by simp
next
  case (Cons x xs)
  have "\<forall>kv \<in> set (AList.update (KStr (f x)) (h x) d). is_KStr (fst kv)"
    using Cons.prems update_key by fastforce
  from Cons.IH[OF this] show ?case by simp
qed

lemma str_key_dict_keys: "\<forall>kv \<in> set (str_key_dict vals). is_KStr (fst kv)"
  unfolding str_key_dict_def
  using foldl_str_keys[of "[]" "\<lambda>kv. str_key (fst kv)" snd vals] by simp

lemma foldl_opt_str_keys:
  assumes "\<forall>kv \<in> set d. is_KStr (fst kv)"
  shows "\<forall>kv \<in> set (foldl (\<lambda>d a. case m a of None \<Rightarrow> d | Some q \<Rightarrow> AList.update (KStr a) q d) d xs).
           is_KStr (fst kv)"
  using assms
proof (induction xs arbitrary: d)
  case Nil
  then show ?case by simp
next
  case (Cons x xs)
  have "\<forall>kv \<in> set (case m x of None \<Rightarrow> d | Some q \<Rightarrow> AList.update (KStr x) q d). is_KStr (fst kv)"
  proof (cases "m x")
    case None
    then show ?thesis using Cons.prems by simp
  next
    case (Some q)
    then show ?thesis using Cons.prems update_key by fastforce
  qed
  from Cons.IH[OF this] show ?case by simp
qed

lemma str_keyed_state_info: "str_keyed (state_info gw values q_values x y)"
proof -
  let ?info0 = "[(KStr ''x'', JInt x), (KStr ''y'', JInt y),
                 (KStr ''type'', JStr (case grid_cell gw x y of CellNum r \<Rightarrow> ''terminal'' | CellStr t \<Rightarrow> ''normal'')),
                 (KStr ''reward'', JNum (case grid_cell gw x y of CellNum r \<Rightarrow> r | CellStr t \<Rightarrow> livingReward gw)),
                 (KStr ''actions'', JList (map JStr (getPossibleActions gw (Pos x y))))]"
  let ?ok = "\<lambda>info. \<forall>kv \<in> set info. is_KStr (fst kv) \<and> str_keyed (snd kv)"
  have i0: "?ok ?info0"
    by (auto simp: str_keyed_JList)
  have upd: "\<And>info k v. ?ok info \<Longrightarrow> str_keyed v \<Longrightarrow> ?ok (AList.update (KStr k) v info)"
    using update_entry by fastforce
  define info1 where "info1 = (case values of None \<Rightarrow> ?info0
        | Some vs \<Rightarrow> (case map_of vs (KState (Pos x y)) of None \<Rightarrow> ?info0
                        | Some v \<Rightarrow> AList.update (KStr ''value'') (JNum v) ?info0))"
  have i1: "?ok info1"
    unfolding info1_def using i0 upd[OF i0, of "JNum _" "''value''"]
    by (simp split: option.split)
  have q: "str_keyed (json_num_dict (foldl (\<lambda>d a. case map_of qs (KStateAction (Pos x y) a) of
                 None \<Rightarrow> d | Some q \<Rightarrow> AList.update (KStr a) q d) [] (getPossibleActions gw (Pos x y))))" for qs
    unfolding str_keyed_num_dict
    using foldl_opt_str_keys[of "[]" "\<lambda>a. map_of qs (KStateAction (Pos x y) a)"] by simp
  have "?ok (case q_values of None \<Rightarrow> info1
        | Some qs \<Rightarrow> AList.update (KStr ''qValues'')
             (json_num_dict (foldl (\<lambda>d a. case map_of qs (KStateAction (Pos x y) a) of
                 None \<Rightarrow> d | Some q \<Rightarrow> AList.update (KStr a) q d) [] (getPossibleActions gw (Pos x y)))) info1)"
    using i1 upd[OF i1 q] by (simp split: option.split)
  then show ?thesis
    unfolding state_info_def Let_def info1_def by simp
qed

lemma str_keyed_walls: "\<forall>j \<in> set (wall_list gw). str_keyed j"
  by (auto simp: wall_list_def)

lemma str_keyed_serialize: "str_keyed (serialize_gridworld_state gw st values q_values)"
  using str_keyed_walls[of gw]
  by (auto simp: serialize_gridworld_state_def str_keyed_JList str_keyed_state_info
           split: option.split state.split)

lemma str_keyed_not_found: "str_keyed (fst (not_found msg))"
  by (simp add: not_found_def)

lemma str_keyed_internal_error: "str_keyed (fst (internal_error e))"
  by (cases e) simp

lemma vi_collect_policy_keys:
  assumes "\<forall>kv \<in> set (fst (snd acc)). is_KStr (fst kv)"
  shows "\<forall>kv \<in> set (fst (snd (vi_collect gw agent acc s))). is_KStr (fst kv)"
proof -
  obtain vals policy qvals where acc: "acc = (vals, policy, qvals)"
    by (cases acc) auto
  have "\<forall>kv \<in> set (AList.update (KStr (str_state s)) (vi_getAction agent s) policy). is_KStr (fst kv)"
    using assms acc update_key by fastforce
  with assms acc show ?thesis
    by (simp add: vi_collect_def Let_def)
qed

lemma vi_tables_policy_keys:
  assumes "\<forall>kv \<in> set (fst (snd acc)). is_KStr (fst kv)"
  shows "\<forall>kv \<in> set (fst (snd (foldl (vi_collect gw agent) acc xs))). is_KStr (fst kv)"
  using assms
proof (induction xs arbitrary: acc)
  case Nil
  then show ?case by simp
next
  case (Cons x xs)
  from Cons.IH[OF vi_collect_policy_keys[OF Cons.prems]] show ?case by simp
qed

lemma ql_collect_policy_keys:
  assumes "\<forall>kv \<in> set (fst (snd acc)). is_KStr (fst kv)"
  shows "\<forall>kv \<in> set (fst (snd (ql_collect gw agent acc s))). is_KStr (fst kv)"
proof -
  obtain vals policy qvals where acc: "acc = (vals, policy, qvals)"
    by (cases acc) auto
  have "\<forall>kv \<in> set (AList.update (KStr (str_state s)) (q_getPolicy agent s) policy). is_KStr (fst kv)"
    using assms acc update_key by fastforce
  with assms acc show ?thesis
    by (simp add: ql_collect_def Let_def split: list.split)
qed

lemma ql_tables_policy_keys:
  assumes "\<forall>kv \<in> set (fst (snd acc)). is_KStr (fst kv)"
  shows "\<forall>kv \<in> set (fst (snd (foldl (ql_collect gw agent) acc xs))). is_KStr (fst kv)"
  using assms
proof (induction xs arbitrary: acc)
  case Nil
  then show ?case by simp
next
  case (Cons x xs)
  from Cons.IH[OF ql_collect_policy_keys[OF Cons.prems]] show ?case by simp
qed

lemma str_keyed_history_entry: "str_keyed (history_entry r)"
  by (cases r) (simp add: history_entry_def)

lemma str_key_dict_key: "(k, v) \<in> set (str_key_dict vals) \<Longrightarrow> is_KStr k"
  using str_key_dict_keys by fastforce

lemma vi_policy_key:
  "vi_tables gw agent = (values, policy, q_values) \<Longrightarrow> (k, v) \<in> set policy \<Longrightarrow> is_KStr k"
  using vi_tables_policy_keys[of "([], [], [])" gw agent "getStates gw"]
  by (fastforce simp: vi_tables_def)

lemma ql_policy_key:
  "ql_tables gw agent = (values, policy, q_values) \<Longrightarrow> (k, v) \<in> set policy \<Longrightarrow> is_KStr k"
  using ql_tables_policy_keys[of "([], [], [])" gw agent "getStates gw"]
  by (fastforce simp: ql_tables_def)

lemma str_keyed_vi_body: "str_keyed (fst (fst (run_value_iteration gridworld data g)))"
proof -
  show ?thesis
    by (auto dest: str_key_dict_key vi_policy_key simp: run_value_iteration_def Let_def ok_def str_keyed_not_found
          str_keyed_internal_error str_keyed_serialize str_keyed_num_dict str_keyed_action_dict
          split: option.split sum.split prod.split)
qed

lemma str_keyed_ql_body: "str_keyed (fst (fst (start_qlearning gridworld data g)))"
proof -
  show ?thesis
    by (auto dest: str_key_dict_key ql_policy_key simp: start_qlearning_def Let_def ok_def str_keyed_not_found
          str_keyed_internal_error str_keyed_serialize str_keyed_num_dict str_keyed_action_dict
          str_keyed_history_entry
          split: option.split sum.split prod.split)
qed

text \<open>
  C7. Every dictionary in the body that \<^verbatim>\<open>run_value_iteration\<close> and
  \<^verbatim>\<open>start_qlearning\<close> return, at any depth (the value table, the policy map, the
  Q-values inside the grid data, and the error bodies), is keyed by strings: the
  state keys went through \<^verbatim>\<open>str\<close>, and no tuple key is left.
\<close>

theorem returned_tables_keyed_by_strings:
  "str_keyed (fst (fst (run_value_iteration gridworld d1 g)))
   \<and> str_keyed (fst (fst (start_qlearning gridworld d2 g)))"
  using str_keyed_vi_body str_keyed_ql_body by simp

section \<open>Training for zero episodes\<close>

lemma fresh_agent_zero [simp]: "q_getQValue (QLearningAgent f e a d) s b = 0"
  by (simp add: QLearningAgent_def q_getQValue_def)

lemma fresh_agent_zero_fun [simp]: "q_getQValue (QLearningAgent f e a d) s = (\<lambda>b. 0)"
  by (rule ext) simp

lemma foldl_max_zero: "foldl max (0::real) (map (\<lambda>x. 0) xs) = 0"
  by (induction xs) auto

lemma foldl_update_zero:
  assumes "\<forall>kv \<in> set d. snd kv = (0::real)"
  shows "\<forall>kv \<in> set (foldl (\<lambda>q b. AList.update (k b) 0 q) d xs). snd kv = 0"
  using assms
proof (induction xs arbitrary: d)
  case Nil
  then show ?case by simp
next
  case (Cons x xs)
  have "\<forall>kv \<in> set (AList.update (k x) 0 d). snd kv = 0"
    using Cons.prems update_entry by fastforce
  from Cons.IH[OF this] show ?case by simp
qed

lemma ql_collect_zero:
  assumes "zero_tables acc"
  shows "zero_tables (ql_collect gw (QLearningAgent f e a d) acc s)"
proof -
  obtain vals policy qvals where acc: "acc = (vals, policy, qvals)"
    by (cases acc) auto
  have v: "\<forall>kv \<in> set (AList.update (KState s) 0 vals). snd kv = 0"
    using assms acc update_entry by (fastforce simp: zero_tables_def)
  have "\<forall>kv \<in> set (AList.update (KStateAction s b) 0 qvals). snd kv = 0" for b
    using assms acc update_entry by (fastforce simp: zero_tables_def)
  then have q: "\<forall>kv \<in> set (foldl (\<lambda>q b. AList.update (KStateAction s b) 0 q)
                                (AList.update (KStateAction s b) 0 qvals) xs). snd kv = 0" for b xs
    using foldl_update_zero[of "AList.update (KStateAction s b) 0 qvals" "KStateAction s" xs] by blast
  show ?thesis
    using assms v q acc
    by (simp add: ql_collect_def zero_tables_def foldl_max_zero split: list.split)
qed

lemma ql_tables_zero_aux:
  assumes "zero_tables acc"
  shows "zero_tables (foldl (ql_collect gw (QLearningAgent f e a d)) acc xs)"
  using assms
proof (induction xs arbitrary: acc)
  case Nil
  then show ?case by simp
next
  case (Cons x xs)
  from Cons.IH[OF ql_collect_zero[OF Cons.prems]] show ?case by simp
qed

lemma ql_tables_zero: "zero_tables (ql_tables gw (QLearningAgent f e a d))"
  unfolding ql_tables_def by (rule ql_tables_zero_aux) (simp add: zero_tables_def)

lemma str_key_dict_zero_aux:
  assumes "\<forall>kv \<in> set d. snd kv = (0::real)" and "\<forall>kv \<in> set xs. snd kv = 0"
  shows "\<forall>kv \<in> set (foldl (\<lambda>d kv. AList.update (KStr (str_key (fst kv))) (snd kv) d) d xs). snd kv = 0"
  using assms
proof (induction xs arbitrary: d)
  case Nil
  then show ?case by simp
next
  case (Cons x xs)
  have "\<forall>kv \<in> set (AList.update (KStr (str_key (fst x))) (snd x) d). snd kv = 0"
    using Cons.prems update_entry by fastforce
  from Cons.IH[OF this] Cons.prems(2) show ?case by simp
qed

lemma str_key_dict_zero:
  "\<forall>kv \<in> set vals. snd kv = (0::real) \<Longrightarrow> \<forall>kv \<in> set (str_key_dict vals). snd kv = 0"
  unfolding str_key_dict_def using str_key_dict_zero_aux[of "[]" vals] by simp

lemma qvalues_entry_zero:
  assumes "\<forall>kv \<in> set tq. snd kv = (0::real)" and "\<forall>kv \<in> set d. snd kv = 0"
  shows "\<forall>kv \<in> set (foldl (\<lambda>d a. case map_of tq (KStateAction s a) of
                                     None \<Rightarrow> d | Some q \<Rightarrow> AList.update (KStr a) q d) d xs). snd kv = 0"
  using assms(2)
proof (induction xs arbitrary: d)
  case Nil
  then show ?case by simp
next
  case (Cons x xs)
  have "\<forall>kv \<in> set (case map_of tq (KStateAction s x) of
                      None \<Rightarrow> d | Some q \<Rightarrow> AList.update (KStr x) q d). snd kv = 0"
  proof (cases "map_of tq (KStateAction s x)")
    case None
    then show ?thesis using Cons.prems by simp
  next
    case (Some q)
    then have "q = 0" using assms(1) map_of_SomeD by fastforce
    with Some show ?thesis using Cons.prems update_entry by fastforce
  qed
  from Cons.IH[OF this] show ?case by simp
qed

lemma state_info_zero:
  assumes "\<forall>kv \<in> set tv. snd kv = (0::real)" and "\<forall>kv \<in> set tq. snd kv = (0::real)"
  shows "json_lookup ''value'' (state_info gw (Some tv) (Some tq) x y) \<in> {None, Some (JNum 0)}
         \<and> (\<exists>qd. json_lookup ''qValues'' (state_info gw (Some tv) (Some tq) x y) = Some (json_num_dict qd)
                 \<and> (\<forall>kv \<in> set qd. snd kv = 0))"
proof -
  have v: "map_of tv (KState (Pos x y)) = Some v \<Longrightarrow> v = 0" for v
    using assms(1) map_of_SomeD by fastforce
  have q: "\<forall>kv \<in> set (foldl (\<lambda>d a. case map_of tq (KStateAction (Pos x y) a) of
                                     None \<Rightarrow> d | Some q \<Rightarrow> AList.update (KStr a) q d) []
                               (getPossibleActions gw (Pos x y))). snd kv = 0"
    using qvalues_entry_zero[OF assms(2), of "[]"] by simp
  show ?thesis
    using v q
    by (auto simp: state_info_def Let_def update_conv' split: option.split)
qed

lemma py_range_zero: "py_range 0 = []"
  by (simp add: py_range_def)

text \<open>
  C4. When \<^verbatim>\<open>start_qlearning\<close> is asked for 0 episodes on a grid that exists, it
  answers 200 with an empty training history; every entry of the returned value
  table is 0, every entry of the Q-table that is handed to the serialiser is 0, and
  in the grid data every state's \<^verbatim>\<open>value\<close> (when present) and every entry of its
  \<^verbatim>\<open>qValues\<close> is 0.
\<close>

theorem zero_episodes_leave_tables_at_zero:
  assumes "data_get (ql_episodes data) 100 = 0"
    and "gridworld (''get'' @ data_get (ql_grid data) ''BookGrid'') = Some (Inr gw0)"
  shows "\<exists>body vals tv tq gw.
           start_qlearning gridworld data g = (ok body, g)
           \<and> json_lookup ''trainingHistory'' body = Some (JList [])
           \<and> json_lookup ''values'' body = Some (json_num_dict vals)
           \<and> (\<forall>kv \<in> set vals. snd kv = 0)
           \<and> json_lookup ''gridData'' body = Some (serialize_gridworld_state gw None (Some tv) (Some tq))
           \<and> (\<forall>kv \<in> set tv. snd kv = 0) \<and> (\<forall>kv \<in> set tq. snd kv = 0)
           \<and> (\<forall>x y. json_lookup ''value'' (state_info gw (Some tv) (Some tq) x y) \<in> {None, Some (JNum 0)}
                  \<and> (\<exists>qd. json_lookup ''qValues'' (state_info gw (Some tv) (Some tq) x y)
                              = Some (json_num_dict qd) \<and> (\<forall>kv \<in> set qd. snd kv = 0)))"
proof -
  let ?gw = "setLivingReward (data_get (ql_livingReward data) 0.0)
               (setNoise (data_get (ql_noise data) 0.2) gw0)"
  let ?agent = "QLearningAgent (\<lambda>s. getPossibleActions ?gw s) (data_get (ql_epsilon data) 0.3)
                  (data_get (ql_alpha data) 0.5) (data_get (ql_discount data) 0.9)"
  obtain tv policy tq where t: "ql_tables ?gw ?agent = (tv, policy, tq)"
    by (cases "ql_tables ?gw ?agent") auto
  have "zero_tables (ql_tables ?gw ?agent)"
    by (rule ql_tables_zero)
  with t have z: "(\<forall>kv \<in> set tv. snd kv = 0) \<and> (\<forall>kv \<in> set tq. snd kv = 0)"
    by (simp add: zero_tables_def)
  define B where "B = JDict [(KStr ''grid'', JStr (data_get (ql_grid data) ''BookGrid'')),
                  (KStr ''episodes'', JInt 0),
                  (KStr ''epsilon'', JNum (data_get (ql_epsilon data) 0.3)),
                  (KStr ''alpha'', JNum (data_get (ql_alpha data) 0.5)),
                  (KStr ''discount'', JNum (data_get (ql_discount data) 0.9)),
                  (KStr ''trainingHistory'', JList []),
                  (KStr ''gridData'', serialize_gridworld_state ?gw None (Some tv) (Some tq)),
                  (KStr ''values'', json_num_dict (str_key_dict tv)),
                  (KStr ''policy'', json_action_dict policy)]"
  have b1: "start_qlearning gridworld data g = (ok B, g)"
    using assms t by (simp add: start_qlearning_def Let_def py_range_zero B_def)
  have b2: "json_lookup ''trainingHistory'' B = Some (JList [])"
    by (simp add: B_def)
  have b3: "json_lookup ''values'' B = Some (json_num_dict (str_key_dict tv))"
    by (simp add: B_def)
  have b4: "json_lookup ''gridData'' B = Some (serialize_gridworld_state ?gw None (Some tv) (Some tq))"
    by (simp add: B_def)
  have b5: "\<forall>kv \<in> set (str_key_dict tv). snd kv = 0"
    using z str_key_dict_zero by blast
  have b6: "\<forall>x y. json_lookup ''value'' (state_info ?gw (Some tv) (Some tq) x y) \<in> {None, Some (JNum 0)}
                  \<and> (\<exists>qd. json_lookup ''qValues'' (state_info ?gw (Some tv) (Some tq) x y)
                              = Some (json_num_dict qd) \<and> (\<forall>kv \<in> set qd. snd kv = 0))"
    using state_info_zero z by blast
  show ?thesis
    apply (rule exI[of _ B])
    apply (rule exI[of _ "str_key_dict tv"])
    apply (rule exI[of _ tv])
    apply (rule exI[of _ tq])
    apply (rule exI[of _ ?gw])
    using b1 b2 b3 b4 b5 b6 z apply blast
    done
qed

theorem zero_episodes_witness:
  "\<exists>body vals. start_qlearning example_module
       \<lparr>ql_grid = Some ''CorridorGrid'', ql_episodes = Some 0, ql_epsilon = None, ql_alpha = None,
        ql_discount = None, ql_noise = None, ql_livingReward = None\<rparr> (\<lambda>n. 0) = (ok body, (\<lambda>n. 0))
     \<and> json_lookup ''trainingHistory'' body = Some (JList [])
     \<and> json_lookup ''values'' body = Some (json_num_dict vals)
     \<and> (\<forall>kv \<in> set vals. snd kv = 0)"
proof -
  have h1: "data_get (ql_episodes \<lparr>ql_grid = Some ''CorridorGrid'', ql_episodes = Some 0, ql_epsilon = None, ql_alpha = None,
        ql_discount = None, ql_noise = None, ql_livingReward = None\<rparr>) 100 = 0"
    by (simp add: data_get_def)
  have h2: "example_module (''get'' @ data_get (ql_grid \<lparr>ql_grid = Some ''CorridorGrid'', ql_episodes = Some 0, ql_epsilon = None, ql_alpha = None,
        ql_discount = None, ql_noise = None, ql_livingReward = None\<rparr>) ''BookGrid'') = Some (Inr corridor)"
    by (simp add: data_get_def example_module_def)
  from zero_episodes_leave_tables_at_zero[where gridworld = example_module and ?gw0.0 = corridor
      and g = "\<lambda>n. 0", OF h1 h2] show ?thesis
    by blast
qed

section \<open>\<^verbatim>\<open>str\<close> of a state is injective\<close>

lemma digit_char_cases:
  assumes "d < 10"
  shows "digit_char d \<in> set ''0123456789''"
  unfolding digit_char_def by (rule nth_mem) (use assms in simp)

lemma digit_char_inj: "d < 10 \<Longrightarrow> e < 10 \<Longrightarrow> digit_char d = digit_char e \<Longrightarrow> d = e"
proof -
  assume d: "d < 10" and e: "e < 10" and eq: "digit_char d = digit_char e"
  have "distinct ''0123456789''" by simp
  moreover have "d < length ''0123456789''" "e < length ''0123456789''" using d e by simp_all
  ultimately show "d = e"
    using eq nth_eq_iff_index_eq unfolding digit_char_def by blast
qed

lemma str_nat_digits: "set (str_nat n) \<subseteq> set ''0123456789''"
proof (induction n rule: str_nat.induct)
  case (1 n)
  show ?case
  proof (cases "n < 10")
    case True
    then show ?thesis using digit_char_cases[of n] by (subst str_nat.simps) simp
  next
    case False
    have "n mod 10 < 10" by simp
    from digit_char_cases[OF this] "1.IH"[OF False] False show ?thesis
      by (subst str_nat.simps) simp
  qed
qed

lemma str_nat_nonempty: "str_nat n \<noteq> []"
  by (subst str_nat.simps) simp

lemma str_nat_length: "n \<ge> 10 \<Longrightarrow> length (str_nat n) \<ge> 2"
  using str_nat_nonempty[of "n div 10"]
  by (subst str_nat.simps) (cases "str_nat (n div 10)"; simp)

lemma str_nat_inj: "str_nat n = str_nat m \<Longrightarrow> n = m"
proof (induction n arbitrary: m rule: str_nat.induct)
  case (1 n)
  show ?case
  proof (cases "n < 10")
    case n: True
    show ?thesis
    proof (cases "m < 10")
      case True
      with n "1.prems" show ?thesis
        by (simp add: str_nat.simps[of n] str_nat.simps[of m] digit_char_inj)
    next
      case False
      then have "length (str_nat m) \<ge> 2" using str_nat_length by simp
      moreover have "length (str_nat n) = 1" using n by (simp add: str_nat.simps[of n])
      ultimately show ?thesis using "1.prems" by simp
    qed
  next
    case n: False
    show ?thesis
    proof (cases "m < 10")
      case True
      then have "length (str_nat m) = 1" by (simp add: str_nat.simps[of m])
      moreover have "length (str_nat n) \<ge> 2" using n str_nat_length by simp
      ultimately show ?thesis using "1.prems" by simp
    next
      case False
      from n False "1.prems"
      have e: "str_nat (n div 10) @ [digit_char (n mod 10)] = str_nat (m div 10) @ [digit_char (m mod 10)]"
        by (simp add: str_nat.simps[of n] str_nat.simps[of m])
      then have "str_nat (n div 10) = str_nat (m div 10)" and d: "digit_char (n mod 10) = digit_char (m mod 10)"
        by simp_all
      from "1.IH"[OF n this(1)] have "n div 10 = m div 10" .
      moreover have "n mod 10 = m mod 10"
        using digit_char_inj[OF _ _ d] by simp
      ultimately show ?thesis
        by (metis div_mult_mod_eq)
    qed
  qed
qed

lemma str_int_inj: "str_int i = str_int j \<Longrightarrow> i = j"
proof -
  assume e: "str_int i = str_int j"
  have nd: "CHR ''-'' \<notin> set (str_nat n)" for n
    using str_nat_digits[of n] by auto
  have hd_nat: "str_nat n \<noteq> CHR ''-'' # xs" for n xs
    using nd[of n] by auto
  show ?thesis
  proof (cases "i < 0")
    case i: True
    show ?thesis
    proof (cases "j < 0")
      case True
      with i e have "nat (- i) = nat (- j)" by (simp add: str_int_def str_nat_inj)
      with i True show ?thesis by simp
    next
      case False
      with i e hd_nat[of "nat j"] show ?thesis by (simp add: str_int_def) metis
    qed
  next
    case i: False
    show ?thesis
    proof (cases "j < 0")
      case True
      with i e hd_nat[of "nat i"] show ?thesis by (simp add: str_int_def)
    next
      case False
      with i e have "nat i = nat j" by (simp add: str_int_def str_nat_inj)
      with i False show ?thesis by simp
    qed
  qed
qed

lemma str_int_no_comma: "CHR '','' \<notin> set (str_int i)"
  using str_nat_digits[of "nat i"] str_nat_digits[of "nat (- i)"]
  by (auto simp: str_int_def)

lemma split_at_comma:
  assumes "a @ CHR '','' # b = c @ CHR '','' # d"
    and "CHR '','' \<notin> set a" and "CHR '','' \<notin> set c"
  shows "a = c \<and> b = d"
  using assms
proof (induction a arbitrary: c)
  case Nil
  then show ?case by (cases c) auto
next
  case (Cons x a)
  then show ?case by (cases c) auto
qed

lemma str_state_inj: "str_state s = str_state t \<Longrightarrow> s = t"
proof (cases s; cases t)
  fix x y u v
  assume s: "s = Pos x y" and t: "t = Pos u v" and e: "str_state s = str_state t"
  from e s t have "str_int x @ CHR '','' # (CHR '' '' # str_int y @ '')'')
                 = str_int u @ CHR '','' # (CHR '' '' # str_int v @ '')'')"
    by simp
  from split_at_comma[OF this str_int_no_comma str_int_no_comma]
  have "str_int x = str_int u" and "str_int y = str_int v" by simp_all
  then show "s = t" using s t str_int_inj by simp
qed (auto)

section \<open>States with no legal actions\<close>

lemma str_state_example: "str_state (Pos 2 0) = ''(2, 0)''"
  by (simp add: str_int_def str_nat.simps digit_char_def)

lemma argmax_first_none [simp]: "argmax_first f xs = None \<longleftrightarrow> xs = []"
  by (cases xs) auto

lemma truthy_vi_action:
  "truthy_action (vi_getAction agent s) \<Longrightarrow> getPossibleActions (via_mdp agent) s \<noteq> []"
  by (auto simp: truthy_action_def vi_getAction_def split: option.splits)

lemma vi_collect_policy_legal:
  assumes "\<forall>kv \<in> set (fst (snd acc)). \<exists>t. fst kv = KStr (str_state t) \<and> getPossibleActions gw t \<noteq> []"
    and "via_mdp agent = gw"
  shows "\<forall>kv \<in> set (fst (snd (vi_collect gw agent acc s))).
           \<exists>t. fst kv = KStr (str_state t) \<and> getPossibleActions gw t \<noteq> []"
proof -
  obtain vals policy qvals where acc: "acc = (vals, policy, qvals)"
    by (cases acc) auto
  have "truthy_action (vi_getAction agent s) \<Longrightarrow>
        \<forall>kv \<in> set (AList.update (KStr (str_state s)) (vi_getAction agent s) policy).
           \<exists>t. fst kv = KStr (str_state t) \<and> getPossibleActions gw t \<noteq> []"
    using assms acc update_key truthy_vi_action[of agent s] by fastforce
  with assms acc show ?thesis
    by (simp add: vi_collect_def Let_def)
qed

lemma vi_tables_policy_legal_aux:
  assumes "\<forall>kv \<in> set (fst (snd acc)). \<exists>t. fst kv = KStr (str_state t) \<and> getPossibleActions gw t \<noteq> []"
    and "via_mdp agent = gw"
  shows "\<forall>kv \<in> set (fst (snd (foldl (vi_collect gw agent) acc xs))).
           \<exists>t. fst kv = KStr (str_state t) \<and> getPossibleActions gw t \<noteq> []"
  using assms(1)
proof (induction xs arbitrary: acc)
  case Nil
  then show ?case by simp
next
  case (Cons x xs)
  from Cons.IH[OF vi_collect_policy_legal[OF Cons.prems assms(2)]] show ?case by simp
qed

lemma ql_collect_policy_legal:
  assumes "\<forall>kv \<in> set (fst (snd acc)). \<exists>t. fst kv = KStr (str_state t) \<and> getPossibleActions gw t \<noteq> []"
  shows "\<forall>kv \<in> set (fst (snd (ql_collect gw agent acc s))).
           \<exists>t. fst kv = KStr (str_state t) \<and> getPossibleActions gw t \<noteq> []"
proof -
  obtain vals policy qvals where acc: "acc = (vals, policy, qvals)"
    by (cases acc) auto
  have "getPossibleActions gw s \<noteq> [] \<Longrightarrow>
        \<forall>kv \<in> set (AList.update (KStr (str_state s)) (q_getPolicy agent s) policy).
           \<exists>t. fst kv = KStr (str_state t) \<and> getPossibleActions gw t \<noteq> []"
    using assms acc update_key by fastforce
  with assms acc show ?thesis
    by (simp add: ql_collect_def Let_def split: list.split)
qed

lemma ql_tables_policy_legal_aux:
  assumes "\<forall>kv \<in> set (fst (snd acc)). \<exists>t. fst kv = KStr (str_state t) \<and> getPossibleActions gw t \<noteq> []"
  shows "\<forall>kv \<in> set (fst (snd (foldl (ql_collect gw agent) acc xs))).
           \<exists>t. fst kv = KStr (str_state t) \<and> getPossibleActions gw t \<noteq> []"
  using assms
proof (induction xs arbitrary: acc)
  case Nil
  then show ?case by simp
next
  case (Cons x xs)
  from Cons.IH[OF ql_collect_policy_legal[OF Cons.prems]] show ?case by simp
qed

lemma legal_keys_omit:
  assumes "\<forall>kv \<in> set policy. \<exists>t. fst kv = KStr (str_state t) \<and> getPossibleActions gw t \<noteq> []"
    and "getPossibleActions gw s = []"
  shows "KStr (str_state s) \<notin> fst ` set (map (map_prod id f) policy)"
proof
  assume "KStr (str_state s) \<in> fst ` set (map (map_prod id f) policy)"
  then obtain kv where kv: "kv \<in> set policy" "fst kv = KStr (str_state s)"
    by auto
  with assms(1) obtain t where t: "fst kv = KStr (str_state t)" "getPossibleActions gw t \<noteq> []"
    by blast
  with kv have "str_state s = str_state t" by simp
  then have "s = t" by (rule str_state_inj)
  with t assms(2) show False by simp
qed

lemma configured_actions [simp]:
  "getPossibleActions (setLivingReward r (setNoise n gw)) = getPossibleActions gw"
  by (simp add: setLivingReward_def setNoise_def)

lemma vi_policy_omits:
  assumes "gridworld (''get'' @ data_get (vi_grid data) ''BookGrid'') = Some (Inr gw0)"
    and "getPossibleActions gw0 s = []"
  shows "\<exists>policy. json_lookup ''policy'' (fst (fst (run_value_iteration gridworld data g))) = Some (JDict policy)
           \<and> KStr (str_state s) \<notin> fst ` set policy"
proof -
  let ?gw = "setLivingReward (data_get (vi_livingReward data) 0.0)
               (setNoise (data_get (vi_noise data) 0.2) gw0)"
  let ?agent = "ValueIterationAgent ?gw (data_get (vi_discount data) 0.9) (data_get (vi_iterations data) 100)"
  obtain vals policy qvals where t: "vi_tables ?gw ?agent = (vals, policy, qvals)"
    by (cases "vi_tables ?gw ?agent") auto
  have "via_mdp ?agent = ?gw" by (simp add: ValueIterationAgent_def)
  from vi_tables_policy_legal_aux[of "([], [], [])" ?gw ?agent "getStates ?gw", OF _ this] t
  have "\<forall>kv \<in> set policy. \<exists>t. fst kv = KStr (str_state t) \<and> getPossibleActions ?gw t \<noteq> []"
    by (simp add: vi_tables_def)
  from legal_keys_omit[OF this, of s json_action] assms(2)
  have "KStr (str_state s) \<notin> fst ` set (map (map_prod id json_action) policy)" by simp
  moreover have "json_lookup ''policy'' (fst (fst (run_value_iteration gridworld data g)))
                   = Some (JDict (map (map_prod id json_action) policy))"
    using assms(1) t by (simp add: run_value_iteration_def Let_def ok_def json_action_dict_def)
  ultimately show ?thesis by blast
qed

lemma ql_policy_omits:
  assumes "gridworld (''get'' @ data_get (ql_grid data) ''BookGrid'') = Some (Inr gw0)"
    and "getPossibleActions gw0 s = []"
  shows "\<exists>policy. json_lookup ''policy'' (fst (fst (start_qlearning gridworld data g))) = Some (JDict policy)
           \<and> KStr (str_state s) \<notin> fst ` set policy"
proof -
  let ?gw = "setLivingReward (data_get (ql_livingReward data) 0.0)
               (setNoise (data_get (ql_noise data) 0.2) gw0)"
  let ?agent = "QLearningAgent (\<lambda>s. getPossibleActions ?gw s) (data_get (ql_epsilon data) 0.3)
                  (data_get (ql_alpha data) 0.5) (data_get (ql_discount data) 0.9)"
  let ?init = "\<lparr>tr_agent = ?agent, tr_env = GridworldEnvironment ?gw, tr_rng = g, tr_results = []\<rparr>"
  let ?n = "data_get (ql_episodes data) 100"
  obtain st where st: "ql_train ?gw ?n ?init (py_range ?n) = Inr st"
    using ql_train_Inr by blast
  obtain vals policy qvals where t: "ql_tables ?gw (tr_agent st) = (vals, policy, qvals)"
    by (cases "ql_tables ?gw (tr_agent st)") auto
  from ql_tables_policy_legal_aux[of "([], [], [])" ?gw "tr_agent st" "getStates ?gw"] t
  have "\<forall>kv \<in> set policy. \<exists>t. fst kv = KStr (str_state t) \<and> getPossibleActions ?gw t \<noteq> []"
    by (simp add: ql_tables_def)
  from legal_keys_omit[OF this, of s json_action] assms(2)
  have "KStr (str_state s) \<notin> fst ` set (map (map_prod id json_action) policy)" by simp
  moreover have "json_lookup ''policy'' (fst (fst (start_qlearning gridworld data g)))
                   = Some (JDict (map (map_prod id json_action) policy))"
    using assms(1) t st by (simp add: start_qlearning_def Let_def ok_def json_action_dict_def)
  ultimately show ?thesis by blast
qed

text \<open>
  C6. For a state with no legal actions, the greedy action of the value-iteration
  agent and of the Q-learning agent is \<^verbatim>\<open>None\<close> (no exception), and so is the
  epsilon-greedy action, which draws no random number; and the policy map in the
  response of \<^verbatim>\<open>run_value_iteration\<close> and of \<^verbatim>\<open>start_qlearning\<close> has no entry under
  the key of that state.
\<close>

theorem no_legal_action_no_policy_entry:
  assumes "getPossibleActions gw0 s = []"
  shows "(getPossibleActions (via_mdp vi_agent) s = [] \<longrightarrow> vi_getAction vi_agent s = None)
       \<and> (qa_actionFn ql_agent s = [] \<longrightarrow>
            q_getPolicy ql_agent s = None \<and> q_getAction ql_agent s g = (None, g))
       \<and> (gridworld (''get'' @ data_get (vi_grid d1) ''BookGrid'') = Some (Inr gw0) \<longrightarrow>
            (\<exists>policy. json_lookup ''policy'' (fst (fst (run_value_iteration gridworld d1 g))) = Some (JDict policy)
               \<and> KStr (str_state s) \<notin> fst ` set policy))
       \<and> (gridworld (''get'' @ data_get (ql_grid d2) ''BookGrid'') = Some (Inr gw0) \<longrightarrow>
            (\<exists>policy. json_lookup ''policy'' (fst (fst (start_qlearning gridworld d2 g))) = Some (JDict policy)
               \<and> KStr (str_state s) \<notin> fst ` set policy))"
  using vi_policy_omits[OF _ assms] ql_policy_omits[OF _ assms]
  by (auto simp: vi_getAction_def q_getPolicy_def computeActionFromQValues_def q_getAction_def)

theorem no_legal_action_witness:
  "getPossibleActions corridor (Pos 2 0) = [] \<and> str_state (Pos 2 0) = ''(2, 0)''
   \<and> vi_getAction (ValueIterationAgent corridor 0.9 100) (Pos 2 0) = None
   \<and> q_getPolicy (QLearningAgent (getPossibleActions corridor) 0.3 0.5 0.9) (Pos 2 0) = None
   \<and> (\<exists>policy. json_lookup ''policy'' (fst (fst (run_value_iteration example_module
          \<lparr>vi_grid = Some ''CorridorGrid'', vi_iterations = None, vi_discount = None, vi_noise = None,
           vi_livingReward = None\<rparr> (\<lambda>n. 0)))) = Some (JDict policy)
        \<and> KStr (str_state (Pos 2 0)) \<notin> fst ` set policy)
   \<and> (\<exists>policy. json_lookup ''policy'' (fst (fst (start_qlearning example_module
          \<lparr>ql_grid = Some ''CorridorGrid'', ql_episodes = Some 3, ql_epsilon = None, ql_alpha = None,
           ql_discount = None, ql_noise = None, ql_livingReward = None\<rparr> (\<lambda>n. 0)))) = Some (JDict policy)
        \<and> KStr (str_state (Pos 2 0)) \<notin> fst ` set policy)"
proof -
  have h: "getPossibleActions corridor (Pos 2 0) = []"
    by (simp add: corridor_def)
  from no_legal_action_no_policy_entry[OF h, of "ValueIterationAgent corridor 0.9 100"
      "QLearningAgent (getPossibleActions corridor) 0.3 0.5 0.9" "\<lambda>n. 0" example_module
      "\<lparr>vi_grid = Some ''CorridorGrid'', vi_iterations = None, vi_discount = None, vi_noise = None,
           vi_livingReward = None\<rparr>"
      "\<lparr>ql_grid = Some ''CorridorGrid'', ql_episodes = Some 3, ql_epsilon = None, ql_alpha = None,
           ql_discount = None, ql_noise = None, ql_livingReward = None\<rparr>"]
  show ?thesis
    using h str_state_example
    by (simp add: example_module_def data_get_def ValueIterationAgent_def QLearningAgent_def
          del: str_state.simps)
qed

section \<open>Episodes that never reach the terminal state\<close>

text \<open>
  When the first legal action of a state leads back to the state itself, and the
  random generator keeps returning 0 (the agent explores and draws the first action
  every time), an episode of \<^verbatim>\<open>start_qlearning\<close> from that state is ended by the step
  bound only, after 101 steps.
\<close>

lemma q_update_epsilon [simp]: "qa_epsilon (q_update agent s a s' r) = qa_epsilon agent"
  by (simp add: q_update_def Let_def)

lemma startEpisode_epsilon [simp]: "qa_epsilon (startEpisode agent) = qa_epsilon agent"
  by (simp add: startEpisode_def)

lemma stopEpisode_keeps [simp]:
  "qa_actionFn (stopEpisode agent) = qa_actionFn agent"
  "qa_epsilon (stopEpisode agent) = qa_epsilon agent"
  by (simp_all add: stopEpisode_def)

lemma zero_stream_draw [simp]: "random_random (\<lambda>n. 0) = (0, \<lambda>n. 0)"
  by (simp add: random_random_def)

lemma explore_first_action:
  assumes "qa_actionFn agent s = a0 # as" and "0 < qa_epsilon agent"
  shows "q_getAction agent s (\<lambda>n. 0) = (Some a0, \<lambda>n. 0)"
  using assms by (simp add: q_getAction_def Let_def random_choice_def)

lemma ql_loop_stuck:
  assumes acts: "getPossibleActions gw s = a0 # as"
    and step: "\<And>g. stepFn gw (noise gw) (livingReward gw) s a0 g = ((s, r), g)"
    and nt: "s \<noteq> TERMINAL_STATE"
  shows "qa_actionFn agent s = a0 # as \<Longrightarrow> 0 < qa_epsilon agent \<Longrightarrow> steps \<le> 100 \<Longrightarrow>
         er_steps (ql_episode_loop gw agent s (\<lambda>n. 0) s tr steps) = 101
         \<and> er_total_reward (ql_episode_loop gw agent s (\<lambda>n. 0) s tr steps)
             = tr + of_int (101 - steps) * r
         \<and> er_rng (ql_episode_loop gw agent s (\<lambda>n. 0) s tr steps) = (\<lambda>n. 0)
         \<and> er_env (ql_episode_loop gw agent s (\<lambda>n. 0) s tr steps) = s
         \<and> qa_actionFn (er_agent (ql_episode_loop gw agent s (\<lambda>n. 0) s tr steps)) = qa_actionFn agent
         \<and> qa_epsilon (er_agent (ql_episode_loop gw agent s (\<lambda>n. 0) s tr steps)) = qa_epsilon agent"
proof (induction "nat (100 - steps)" arbitrary: agent tr steps)
  case 0
  then have k: "steps = 100" by simp
  have d: "env_doAction gw s a0 (\<lambda>n. 0) = ((s, r), s, (\<lambda>n. 0))"
    by (simp add: env_doAction_def step)
  show ?case
    using acts nt explore_first_action[OF "0.prems"(1,2)] d k
    by (subst (1 2 3 4 5 6) ql_episode_loop.simps) (simp add: Let_def)
next
  case (Suc m)
  then have k: "steps < 100" by simp
  have d: "env_doAction gw s a0 (\<lambda>n. 0) = ((s, r), s, (\<lambda>n. 0))"
    by (simp add: env_doAction_def step)
  let ?agent2 = "(q_update agent s a0 s r)\<lparr>qa_episodeRewards := qa_episodeRewards (q_update agent s a0 s r) + r\<rparr>"
  have unfold: "ql_episode_loop gw agent s (\<lambda>n. 0) s tr steps
                  = ql_episode_loop gw ?agent2 s (\<lambda>n. 0) s (tr + r) (steps + 1)"
    using acts nt explore_first_action[OF Suc.prems(1,2)] d k
    by (subst ql_episode_loop.simps) (simp add: Let_def)
  have m: "m = nat (100 - (steps + 1))" using Suc.hyps(2) by simp
  have ih: "er_steps (ql_episode_loop gw ?agent2 s (\<lambda>n. 0) s (tr + r) (steps + 1)) = 101
         \<and> er_total_reward (ql_episode_loop gw ?agent2 s (\<lambda>n. 0) s (tr + r) (steps + 1))
             = (tr + r) + of_int (101 - (steps + 1)) * r
         \<and> er_rng (ql_episode_loop gw ?agent2 s (\<lambda>n. 0) s (tr + r) (steps + 1)) = (\<lambda>n. 0)
         \<and> er_env (ql_episode_loop gw ?agent2 s (\<lambda>n. 0) s (tr + r) (steps + 1)) = s
         \<and> qa_actionFn (er_agent (ql_episode_loop gw ?agent2 s (\<lambda>n. 0) s (tr + r) (steps + 1))) = qa_actionFn ?agent2
         \<and> qa_epsilon (er_agent (ql_episode_loop gw ?agent2 s (\<lambda>n. 0) s (tr + r) (steps + 1))) = qa_epsilon ?agent2"
    using Suc.hyps(1)[OF m, of ?agent2 "tr + r"] Suc.prems k by simp
  show ?case
    unfolding unfold using ih by (simp add: algebra_simps)
qed

lemma ql_episode_stuck:
  assumes acts: "getPossibleActions gw s = a0 # as"
    and step: "\<And>g. stepFn gw (noise gw) (livingReward gw) s a0 g = ((s, r), g)"
    and nt: "s \<noteq> TERMINAL_STATE"
    and start: "getStartState gw = s"
    and inv: "tr_env st = s" "tr_rng st = (\<lambda>n. 0)" "qa_actionFn (tr_agent st) s = a0 # as"
             "0 < qa_epsilon (tr_agent st)"
  shows "er_steps (ql_episode_loop gw (startEpisode (tr_agent st)) (tr_env st) (tr_rng st)
                     (env_getCurrentState (tr_env st)) 0 0) = 101
       \<and> er_total_reward (ql_episode_loop gw (startEpisode (tr_agent st)) (tr_env st) (tr_rng st)
                     (env_getCurrentState (tr_env st)) 0 0) = 101 * r
       \<and> (\<forall>st1. ql_episode gw n st e = Inr st1 \<longrightarrow>
             tr_env st1 = s \<and> tr_rng st1 = (\<lambda>n. 0) \<and> qa_actionFn (tr_agent st1) s = a0 # as
             \<and> 0 < qa_epsilon (tr_agent st1))"
proof -
  have "qa_actionFn (startEpisode (tr_agent st)) s = a0 # as" "0 < qa_epsilon (startEpisode (tr_agent st))"
    using inv by simp_all
  from ql_loop_stuck[OF acts step nt this, of 0 0] inv start
  show ?thesis
    by (auto simp: env_getCurrentState_def ql_episode_def Let_def env_reset_def py_mod_history)
qed

lemma episode_summaries_stuck:
  assumes acts: "getPossibleActions gw s = a0 # as"
    and step: "\<And>g. stepFn gw (noise gw) (livingReward gw) s a0 g = ((s, r), g)"
    and nt: "s \<noteq> TERMINAL_STATE"
    and start: "getStartState gw = s"
  shows "tr_env st = s \<Longrightarrow> tr_rng st = (\<lambda>n. 0) \<Longrightarrow> qa_actionFn (tr_agent st) s = a0 # as \<Longrightarrow>
         0 < qa_epsilon (tr_agent st) \<Longrightarrow>
         episode_summaries gw n st es = map (\<lambda>e. (e, 101 * r, 101)) es"
proof (induction es arbitrary: st)
  case Nil
  show ?case by simp
next
  case (Cons e es)
  note s = ql_episode_stuck[OF acts step nt start Cons.prems, of n e]
  obtain st1 where st1: "ql_episode gw n st e = Inr st1"
    using ql_episode_Inr by blast
  with s have "tr_env st1 = s" "tr_rng st1 = (\<lambda>n. 0)" "qa_actionFn (tr_agent st1) s = a0 # as"
      "0 < qa_epsilon (tr_agent st1)" by simp_all
  from Cons.IH[OF this] s st1 show ?case
    by (simp add: Let_def)
qed

section \<open>The training history\<close>

lemma ql_episode_full:
  "n < 40 \<Longrightarrow> ql_episode gw n st e = Inr st' \<Longrightarrow>
     tr_results st' = tr_results st @ episode_summaries gw n st [e]"
  by (auto simp: ql_episode_def Let_def py_mod_def history_modulus_small)

lemma ql_train_full:
  "n < 40 \<Longrightarrow> ql_train gw n st es = Inr st' \<Longrightarrow>
     tr_results st' = tr_results st @ episode_summaries gw n st es"
proof (induction es arbitrary: st)
  case Nil
  then show ?case by simp
next
  case (Cons e es)
  obtain st1 where s1: "ql_episode gw n st e = Inr st1"
    using ql_episode_Inr by blast
  with Cons.prems have "ql_train gw n st1 es = Inr st'" by simp
  from Cons.IH[OF Cons.prems(1) this] ql_episode_full[OF Cons.prems(1) s1] s1
  show ?case by (simp add: Let_def)
qed

text \<open>
  C9. For every requested episode count \<open>n\<close> the sampling modulus
  \<^verbatim>\<open>max(1, n // 20)\<close> is at least 1, so the test \<^verbatim>\<open>episode % modulus == 0\<close> never
  divides by zero and the training loop never leaves through that exception. For
  \<open>n < 40\<close> the modulus is 1 and the history gets, in order, the full summary of
  every episode of the run: its index, the total reward and the step count that its
  episode loop returned.
\<close>

theorem history_sampling_never_divides_by_zero:
  "1 \<le> history_modulus n
   \<and> (\<exists>m. py_mod episode (history_modulus n) = Inr m)
   \<and> (\<exists>st'. ql_train gw n st (py_range n) = Inr st'
         \<and> (n < 40 \<longrightarrow> history_modulus n = 1
               \<and> tr_results st' = tr_results st @ episode_summaries gw n st (py_range n)))"
proof -
  obtain st' where t: "ql_train gw n st (py_range n) = Inr st'"
    using ql_train_Inr by blast
  have "n < 40 \<longrightarrow> tr_results st' = tr_results st @ episode_summaries gw n st (py_range n)"
    using ql_train_full[OF _ t] by blast
  with t show ?thesis
    by (auto simp: history_modulus_ge1 py_mod_history history_modulus_small)
qed

lemma corridor_stuck_facts:
  "getPossibleActions corridor (Pos 0 0) = ''north'' # [''west'', ''south'', ''east'']"
  "stepFn corridor (noise corridor) (livingReward corridor) (Pos 0 0) ''north'' g = ((Pos 0 0, 0), g)"
  "getStartState corridor = Pos 0 0"
  by (simp_all add: corridor_def corridor_next_def corridor_reward_def)

theorem history_sampling_witness:
  "(3::int) < 40 \<and> history_modulus 3 = 1
   \<and> (\<exists>st'. ql_train corridor 3
               \<lparr>tr_agent = QLearningAgent (getPossibleActions corridor) 0.3 0.5 0.9,
                tr_env = Pos 0 0, tr_rng = (\<lambda>n. 0), tr_results = []\<rparr> (py_range 3) = Inr st'
         \<and> tr_results st' = [(0, 0, 101), (1, 0, 101), (2, 0, 101)])"
proof -
  let ?st = "\<lparr>tr_agent = QLearningAgent (getPossibleActions corridor) 0.3 0.5 0.9,
                tr_env = Pos 0 0, tr_rng = (\<lambda>n. 0), tr_results = []\<rparr>"
  have r: "py_range 3 = [0, 1, 2]"
    by (simp add: py_range_def upto.simps)
  have e: "episode_summaries corridor 3 ?st [0, 1, 2] = [(0, 0, 101), (1, 0, 101), (2, 0, 101)]"
    using episode_summaries_stuck[OF corridor_stuck_facts(1) corridor_stuck_facts(2) _ corridor_stuck_facts(3),
        of ?st 3 "[0, 1, 2]"]
    by (simp add: QLearningAgent_def corridor_stuck_facts del: episode_summaries.simps)
  show ?thesis
    using history_sampling_never_divides_by_zero [of 3 0 corridor ?st] e
    by (auto simp: r simp del: ql_train.simps episode_summaries.simps)
qed

section \<open>The generator and the training episodes\<close>

lemma east_stream_draw: "random_random east_stream = (0, \<lambda>n. if even n then 3 / 4 else 0)"
  by (auto simp: random_random_def east_stream_def fun_eq_iff)

lemma east_stream_draw2: "random_random (\<lambda>n. if even n then 3 / 4 else 0) = (3 / 4, east_stream)"
  by (auto simp: random_random_def east_stream_def fun_eq_iff)

lemma explore_east:
  assumes "qa_actionFn agent s = [a0, a1, a2, a3]" and "0 < qa_epsilon agent"
  shows "q_getAction agent s east_stream = (Some a3, east_stream)"
  using assms
  by (simp add: q_getAction_def Let_def random_choice_def east_stream_draw east_stream_draw2)

lemma explore_only:
  assumes "qa_actionFn agent s = [a0]" and "0 < qa_epsilon agent"
  shows "q_getAction agent s east_stream = (Some a0, east_stream)"
  using assms
  by (simp add: q_getAction_def Let_def random_choice_def east_stream_draw east_stream_draw2)

lemma corridor_short_episode:
  assumes "qa_actionFn agent = getPossibleActions corridor" and "0 < qa_epsilon agent"
  shows "er_steps (ql_episode_loop corridor agent (Pos 0 0) east_stream (Pos 0 0) 0 0) = 2
       \<and> er_total_reward (ql_episode_loop corridor agent (Pos 0 0) east_stream (Pos 0 0) 0 0) = 1"
proof -
  have a0: "qa_actionFn agent (Pos 0 0) = [''north'', ''west'', ''south'', ''east'']"
    using assms(1) by (simp add: corridor_def)
  let ?agent2 = "(q_update agent (Pos 0 0) ''east'' (Pos 1 0) 0)\<lparr>qa_episodeRewards :=
                   qa_episodeRewards (q_update agent (Pos 0 0) ''east'' (Pos 1 0) 0) + 0\<rparr>"
  have a1: "qa_actionFn ?agent2 (Pos 1 0) = [''exit'']" "0 < qa_epsilon ?agent2"
    using assms by (simp_all add: corridor_def)
  have d0: "env_doAction corridor (Pos 0 0) ''east'' east_stream = ((Pos 1 0, 0), Pos 1 0, east_stream)"
    by (simp add: env_doAction_def corridor_def corridor_next_def corridor_reward_def)
  have d1: "env_doAction corridor (Pos 1 0) ''exit'' east_stream = ((TERMINAL_STATE, 1), TERMINAL_STATE, east_stream)"
    by (simp add: env_doAction_def corridor_def corridor_next_def corridor_reward_def)
  have p0: "getPossibleActions corridor (Pos 0 0) \<noteq> []" "getPossibleActions corridor (Pos 1 0) \<noteq> []"
    by (simp_all add: corridor_def)
  have step1: "ql_episode_loop corridor agent (Pos 0 0) east_stream (Pos 0 0) 0 0
                = ql_episode_loop corridor ?agent2 (Pos 1 0) east_stream (Pos 1 0) 0 1"
    using p0 explore_east[OF a0 assms(2)] d0
    by (subst ql_episode_loop.simps) (simp add: Let_def)
  show ?thesis
    unfolding step1
    using p0 explore_only[OF a1] d1
    by (subst (1 2) ql_episode_loop.simps) (simp add: Let_def)
qed

text \<open>
  The random generator is live in the model: the same first training episode on the
  corridor takes 101 steps under the generator that keeps returning 0 and 2 steps
  under \<open>east_stream\<close>. Value iteration, in contrast, never reads it.
\<close>

lemma training_reads_generator:
  "er_steps (ql_episode_loop corridor (QLearningAgent (getPossibleActions corridor) 0.3 0.5 0.9)
              (Pos 0 0) (\<lambda>n. 0) (Pos 0 0) 0 0) = 101
   \<and> er_steps (ql_episode_loop corridor (QLearningAgent (getPossibleActions corridor) 0.3 0.5 0.9)
              (Pos 0 0) east_stream (Pos 0 0) 0 0) = 2"
  using ql_loop_stuck[OF corridor_stuck_facts(1) corridor_stuck_facts(2), of
          "QLearningAgent (getPossibleActions corridor) 0.3 0.5 0.9" 0 0]
        corridor_short_episode[of "QLearningAgent (getPossibleActions corridor) 0.3 0.5 0.9"]
  by (simp add: QLearningAgent_def corridor_stuck_facts)

section \<open>The episode loop of the comparison\<close>

lemma cmp_loop_stuck:
  assumes acts: "getPossibleActions gw s = a0 # as"
    and step: "\<And>g. stepFn gw (noise gw) (livingReward gw) s a0 g = ((s, r), g)"
    and nt: "s \<noteq> TERMINAL_STATE"
    and ret: "cmp_episode_loop gw' agent env g s0 = Some y"
  shows "\<not> (gw' = gw \<and> env = s \<and> s0 = s \<and> g = (\<lambda>n. 0)
            \<and> qa_actionFn agent s = a0 # as \<and> 0 < qa_epsilon agent)"
proof (rule cmp_episode_loop.raw_induct
    [where P = "\<lambda>gw' agent env g s0 y. \<not> (gw' = gw \<and> env = s \<and> s0 = s \<and> g = (\<lambda>n. 0)
            \<and> qa_actionFn agent s = a0 # as \<and> 0 < qa_epsilon agent)", OF _ ret], goal_cases)
  case (1 loop gw' agent env g s0 y)
  show ?case
  proof
    assume inv: "gw' = gw \<and> env = s \<and> s0 = s \<and> g = (\<lambda>n. 0)
            \<and> qa_actionFn agent s = a0 # as \<and> 0 < qa_epsilon agent"
    then have ga: "q_getAction agent s0 g = (Some a0, \<lambda>n. 0)"
      using explore_first_action by simp
    have d: "env_doAction gw s a0 (\<lambda>n. 0) = ((s, r), s, (\<lambda>n. 0))"
      by (simp add: env_doAction_def step)
    let ?agent2 = "(q_update agent s a0 s r)\<lparr>qa_episodeRewards :=
                      qa_episodeRewards (q_update agent s a0 s r) + r\<rparr>"
    from "1"(2) inv ga d nt have "loop gw ?agent2 s (\<lambda>n. 0) s = Some y"
      by (simp add: Let_def)
    from "1"(1)[OF this] inv show False by simp
  qed
qed

text \<open>
  C1. Every training-episode loop should end at the terminal state or at a step
  bound. The loop of \<^verbatim>\<open>start_qlearning\<close> does (at most 101 steps, lemma
  \<open>ql_episode_loop_steps\<close>), but the loop of \<^verbatim>\<open>compare_algorithms\<close> has no step
  bound: on the corridor, with a generator that keeps returning 0, the agent bumps
  into the wall for ever and the handler never returns; in the closed room it never
  returns whatever the generator. On the same corridor request and generator,
  \<^verbatim>\<open>start_qlearning\<close> stops its episode at 101 steps.
\<close>

theorem compare_episode_never_returns:
  "compare_algorithms example_module
     \<lparr>cmp_grid = Some ''CorridorGrid'', cmp_iterations = Some 1, cmp_episodes = Some 1\<rparr> (\<lambda>n. 0) = None
   \<and> compare_algorithms example_module
     \<lparr>cmp_grid = Some ''ClosedRoom'', cmp_iterations = Some 1, cmp_episodes = Some 1\<rparr> (\<lambda>n. 0) = None
   \<and> json_lookup ''trainingHistory''
       (fst (fst (start_qlearning example_module
          \<lparr>ql_grid = Some ''CorridorGrid'', ql_episodes = Some 1, ql_epsilon = None, ql_alpha = None,
           ql_discount = None, ql_noise = None, ql_livingReward = None\<rparr> (\<lambda>n. 0))))
     = Some (JList [JDict [(KStr ''episode'', JInt 0), (KStr ''totalReward'', JNum 0),
                           (KStr ''steps'', JInt 101)]])"
proof -
  have one: "py_range 1 = [0]"
    by (simp add: py_range_def upto.simps)
  have c1: "compare_algorithms example_module
     \<lparr>cmp_grid = Some ''CorridorGrid'', cmp_iterations = Some 1, cmp_episodes = Some 1\<rparr> (\<lambda>n. 0) = None"
  proof -
    let ?agent = "QLearningAgent (\<lambda>s. getPossibleActions corridor s) 0.3 0.5 0.9"
    have "cmp_episode_loop corridor (startEpisode ?agent) (Pos 0 0) (\<lambda>n. 0) (Pos 0 0) = None"
    proof (cases "cmp_episode_loop corridor (startEpisode ?agent) (Pos 0 0) (\<lambda>n. 0) (Pos 0 0)")
      case None
      then show ?thesis .
    next
      case (Some y)
      from cmp_loop_stuck[OF corridor_stuck_facts(1) corridor_stuck_facts(2) _ this] show ?thesis
        by (simp add: QLearningAgent_def corridor_stuck_facts)
    qed
    then have "cmp_train corridor (?agent, Pos 0 0, (\<lambda>n. 0)) [0] = None"
      by (simp add: env_getCurrentState_def)
    then show ?thesis
      using one corridor_stuck_facts(3)
      by (simp add: compare_algorithms_def example_module_def data_get_def Let_def
            GridworldEnvironment_def del: cmp_train.simps)
  qed
  have c2: "compare_algorithms example_module
     \<lparr>cmp_grid = Some ''ClosedRoom'', cmp_iterations = Some 1, cmp_episodes = Some 1\<rparr> (\<lambda>n. 0) = None"
  proof -
    let ?agent = "QLearningAgent (\<lambda>s. getPossibleActions closed_room s) 0.3 0.5 0.9"
    have "cmp_episode_loop closed_room (startEpisode ?agent) (Pos 0 0) (\<lambda>n. 0) (Pos 0 0) = None"
    proof (cases "cmp_episode_loop closed_room (startEpisode ?agent) (Pos 0 0) (\<lambda>n. 0) (Pos 0 0)")
      case None
      then show ?thesis .
    next
      case (Some y)
      from cmp_loop_closed_room[OF this] show ?thesis
        by (simp add: QLearningAgent_def)
    qed
    then have "cmp_train closed_room (?agent, Pos 0 0, (\<lambda>n. 0)) [0] = None"
      by (simp add: env_getCurrentState_def)
    moreover have "getStartState closed_room = Pos 0 0"
      by (simp add: closed_room_def)
    ultimately show ?thesis
      using one
      by (simp add: compare_algorithms_def example_module_def data_get_def Let_def
            GridworldEnvironment_def del: cmp_train.simps)
  qed
  have c3: "json_lookup ''trainingHistory''
       (fst (fst (start_qlearning example_module
          \<lparr>ql_grid = Some ''CorridorGrid'', ql_episodes = Some 1, ql_epsilon = None, ql_alpha = None,
           ql_discount = None, ql_noise = None, ql_livingReward = None\<rparr> (\<lambda>n. 0))))
     = Some (JList [JDict [(KStr ''episode'', JInt 0), (KStr ''totalReward'', JNum 0),
                           (KStr ''steps'', JInt 101)]])"
  proof -
    let ?gw = "setLivingReward 0 (setNoise (2 / 10) corridor)"
    let ?st = "\<lparr>tr_agent = QLearningAgent (\<lambda>s. getPossibleActions ?gw s) (3 / 10) (5 / 10) (9 / 10),
                tr_env = GridworldEnvironment ?gw, tr_rng = (\<lambda>n. 0), tr_results = []\<rparr>"
    have f: "getPossibleActions ?gw (Pos 0 0) = ''north'' # [''west'', ''south'', ''east'']"
        "\<And>g. stepFn ?gw (noise ?gw) (livingReward ?gw) (Pos 0 0) ''north'' g = ((Pos 0 0, 0), g)"
        "getStartState ?gw = Pos 0 0"
      by (simp_all add: setLivingReward_def setNoise_def corridor_def corridor_next_def
            corridor_reward_def)
    obtain st' where t: "ql_train ?gw 1 ?st (py_range 1) = Inr st'"
      using ql_train_Inr by blast
    have "episode_summaries ?gw 1 ?st [0] = [(0, 0, 101)]"
      using episode_summaries_stuck[OF f(1) f(2) _ f(3), of ?st 1 "[0]"] f
      by (simp add: QLearningAgent_def GridworldEnvironment_def del: episode_summaries.simps)
    with ql_train_full[OF _ t] one have "tr_results st' = [(0, 0, 101)]"
      by (simp del: episode_summaries.simps)
    with t show ?thesis
      by (simp add: start_qlearning_def example_module_def data_get_def Let_def ok_def
            history_entry_def split: prod.split del: ql_train.simps)
  qed
  from c1 c2 c3 show ?thesis by blast
qed

end
